theory Spec2Isabelle
  imports Main
begin

section \<open>Shared conventions of the services\<close>

text \<open>
  Every service is an Express application over Mongoose collections. A collection is a
  list of documents in insertion order; \<open>findById\<close> and \<open>findOne\<close> return the first
  match, \<open>save\<close> of a loaded document replaces the stored document with the same
  \<open>_id\<close>, \<open>save\<close> of a new document appends it. Identifiers (ObjectIds, user ids
  carried by tokens) are strings; the identifier of a new document is generated by the
  driver and is an argument of the handler that creates it. \<open>Date.now()\<close> is the
  argument \<open>now\<close>. A handler takes the request and the store and returns the store it
  leaves behind together with its HTTP response.
\<close>

type_synonym oid = string

text \<open>The payload of a bearer token: \<open>{ id, email, role }\<close>, as \<open>req.user\<close> holds it.\<close>

record jwt_payload =
  jp_id :: oid
  jp_email :: string
  jp_role :: string

text \<open>\<open>res.status(code).json({ message, ... })\<close>: the code, the message, and the document
  returned with it, if any.\<close>

datatype 'a response = Response (res_status: nat) (res_message: string) (res_body: "'a option")

text \<open>Joi's messages quote the key: \<open>"classId" is required\<close>.\<close>

definition joi_quote :: "string \<Rightarrow> string" where
  "joi_quote k = CHR 0x22 # k @ [CHR 0x22]"

definition joi_string_required :: "string \<Rightarrow> string option \<Rightarrow> string + string" where
  \<comment> \<open>\<open>Joi.string().required()\<close>: the error message (\<open>Inl\<close>) or the validated string.\<close>
  "joi_string_required k v =
     (case v of
        None \<Rightarrow> Inl (joi_quote k @ '' is required'')
      | Some s \<Rightarrow> if s = [] then Inl (joi_quote k @ '' is not allowed to be empty'') else Inr s)"

text \<open>
  The schema options \<open>trim: true\<close> and \<open>lowercase: true\<close> are setters: on a non-empty
  string they call \<open>String.prototype.trim\<close> and \<open>String.prototype.toLowerCase\<close>, and
  they leave an empty string as it is. The two methods belong to the JavaScript runtime,
  not to this repository, and are arguments of the model: whatever they do to a string,
  the handlers store and compare their results.
\<close>

record string_methods =
  js_trim :: "string \<Rightarrow> string"
  js_toLowerCase :: "string \<Rightarrow> string"

definition trim_setter :: "string_methods \<Rightarrow> string \<Rightarrow> string" where
  "trim_setter js s = (if s = [] then [] else js_trim js s)"

definition lowercase_setter :: "string_methods \<Rightarrow> string \<Rightarrow> string" where
  "lowercase_setter js s = (if s = [] then [] else js_toLowerCase js s)"

text \<open>
  Sample data: the two methods on strings whose code units are all below 256. There
  \<open>trim\<close> strips tab, line feed, vertical tab, form feed, carriage return, space and
  no-break space from both ends, and \<open>toLowerCase\<close> maps \<open>A\<close> to \<open>Z\<close> and the
  capital letters from U+00C0 to U+00DE (U+00D7, the multiplication sign, is not one).
\<close>

definition is_space :: "char \<Rightarrow> bool" where
  "is_space c =
     (c \<in> set [CHR 0x09, CHR 0x0A, CHR 0x0B, CHR 0x0C, CHR 0x0D, CHR 0x20, CHR 0xA0])"

definition sample_trim :: "string \<Rightarrow> string" where
  "sample_trim s = rev (dropWhile is_space (rev (dropWhile is_space s)))"

definition to_lower :: "char \<Rightarrow> char" where
  "to_lower c =
     (let n = (of_char c :: nat)
      in if (65 \<le> n \<and> n \<le> 90) \<or> (192 \<le> n \<and> n \<le> 222 \<and> n \<noteq> 215)
         then char_of (n + 32) else c)"

definition sample_toLowerCase :: "string \<Rightarrow> string" where
  "sample_toLowerCase s = map to_lower s"

definition sample_js :: string_methods where
  "sample_js = \<lparr>js_trim = sample_trim, js_toLowerCase = sample_toLowerCase\<rparr>"

section \<open>Class service\<close>

text \<open>
  \<open>backend/class-service/server.js\<close>. Of the Class schema the enrollment handlers read
  and write \<open>teacherId\<close>, \<open>capacity\<close>, \<open>enrollmentCount\<close> and \<open>updatedAt\<close> (the
  pre-save hook); the descriptive fields (name, subject, schedule, ...) are carried by
  no handler modelled here and are left out. \<open>status\<close> of an Enrollment is assigned
  from the request body before any validation, so it is an optional string; the schema's
  enum is checked when the document is saved.
\<close>

record class_doc =
  c_id :: oid
  c_teacherId :: string
  c_capacity :: int
  c_enrollmentCount :: int
  c_updatedAt :: nat

record enrollment =
  e_id :: oid
  e_classId :: oid
  e_studentId :: string
  e_enrollmentDate :: nat
  e_status :: "string option"
  e_updatedAt :: nat

record class_db =
  classes :: "class_doc list"
  enrollments :: "enrollment list"

record enrollment_body =
  eb_classId :: "string option"
  eb_studentId :: "string option"

definition enrollmentSchema_joi :: "enrollment_body \<Rightarrow> string + (string \<times> string)" where
  \<comment> \<open>the first failing key's message, or the validated \<open>(classId, studentId)\<close>\<close>
  "enrollmentSchema_joi body =
     (case joi_string_required ''classId'' (eb_classId body) of
        Inl err \<Rightarrow> Inl err
      | Inr classId \<Rightarrow>
          (case joi_string_required ''studentId'' (eb_studentId body) of
             Inl err \<Rightarrow> Inl err
           | Inr studentId \<Rightarrow> Inr (classId, studentId)))"

definition Class_findById :: "oid \<Rightarrow> class_db \<Rightarrow> class_doc option" where
  "Class_findById i db = find (\<lambda>c. c_id c = i) (classes db)"

definition Enrollment_findById :: "oid \<Rightarrow> class_db \<Rightarrow> enrollment option" where
  "Enrollment_findById i db = find (\<lambda>e. e_id e = i) (enrollments db)"

definition Enrollment_findOne :: "oid \<Rightarrow> string \<Rightarrow> class_db \<Rightarrow> enrollment option" where
  \<comment> \<open>\<open>Enrollment.findOne({ classId, studentId })\<close>: no condition on \<open>status\<close>.\<close>
  "Enrollment_findOne cid sid db =
     find (\<lambda>e. e_classId e = cid \<and> e_studentId e = sid) (enrollments db)"

definition Class_save :: "nat \<Rightarrow> class_doc \<Rightarrow> class_db \<Rightarrow> class_db" where
  "Class_save now c db =
     db\<lparr>classes := map (\<lambda>d. if c_id d = c_id c then c\<lparr>c_updatedAt := now\<rparr> else d) (classes db)\<rparr>"

definition enrollment_status_enum :: "string list" where
  "enrollment_status_enum = [''active'', ''dropped'', ''completed'']"

definition Enrollment_valid :: "enrollment \<Rightarrow> bool" where
  \<comment> \<open>the schema validators run by \<open>save\<close>: required ids, and the enum of a status that is set\<close>
  "Enrollment_valid e =
     (e_classId e \<noteq> [] \<and> e_studentId e \<noteq> [] \<and>
      (case e_status e of None \<Rightarrow> True | Some s \<Rightarrow> s \<in> set enrollment_status_enum))"

definition Enrollment_save :: "nat \<Rightarrow> enrollment \<Rightarrow> class_db \<Rightarrow> class_db" where
  "Enrollment_save now e db =
     db\<lparr>enrollments :=
          map (\<lambda>d. if e_id d = e_id e then e\<lparr>e_updatedAt := now\<rparr> else d) (enrollments db)\<rparr>"

definition Enrollment_insert :: "nat \<Rightarrow> enrollment \<Rightarrow> class_db \<Rightarrow> class_db" where
  "Enrollment_insert now e db = db\<lparr>enrollments := enrollments db @ [e\<lparr>e_updatedAt := now\<rparr>]\<rparr>"

definition server_error :: "'a response" where
  "server_error = Response 500 ''Server error'' None"

text \<open>\<open>POST /enrollments\<close>. The student is the caller (\<open>req.user.id\<close>); the body's
  \<open>studentId\<close> is validated and then ignored.\<close>

definition post_enrollments ::
  "nat \<Rightarrow> oid \<Rightarrow> jwt_payload \<Rightarrow> enrollment_body \<Rightarrow> class_db \<Rightarrow> class_db \<times> enrollment response" where
  "post_enrollments now newId user body db =
     (if jp_role user \<noteq> ''student'' then
        (db, Response 403 ''Access denied. Only students can enroll in classes.'' None)
      else case enrollmentSchema_joi body of
        Inl err \<Rightarrow> (db, Response 400 err None)
      | Inr (classId, body_studentId) \<Rightarrow>
          let studentId = jp_id user in
          (case Class_findById classId db of
             None \<Rightarrow> (db, Response 404 ''Class not found'' None)
           | Some classItem \<Rightarrow>
               if c_enrollmentCount classItem \<ge> c_capacity classItem then
                 (db, Response 400 ''Class is full'' None)
               else (case Enrollment_findOne classId studentId db of
                  Some existingEnrollment \<Rightarrow>
                    (db, Response 400 ''Student is already enrolled in this class'' None)
                | None \<Rightarrow>
                    let newEnrollment = \<lparr>e_id = newId, e_classId = classId,
                          e_studentId = studentId, e_enrollmentDate = now,
                          e_status = Some ''active'', e_updatedAt = now\<rparr>
                    in if \<not> Enrollment_valid newEnrollment then (db, server_error)
                       else
                         let db1 = Enrollment_insert now newEnrollment db;
                             db2 = Class_save now
                                     (classItem\<lparr>c_enrollmentCount := c_enrollmentCount classItem + 1\<rparr>) db1
                         in (db2, Response 201 ''Enrolled successfully'' (Some newEnrollment)))))"

text \<open>\<open>PUT /enrollments/:id\<close>. The handler assigns \<open>enrollment.status = req.body.status\<close>
  first and tests \<open>req.body.status === 'dropped' && enrollment.status === 'active'\<close> on
  the enrollment it has just assigned to; the model keeps that order.\<close>

definition put_enrollments ::
  "nat \<Rightarrow> jwt_payload \<Rightarrow> oid \<Rightarrow> string option \<Rightarrow> class_db \<Rightarrow> class_db \<times> enrollment response" where
  "put_enrollments now user i body_status db =
     (case Enrollment_findById i db of
        None \<Rightarrow> (db, Response 404 ''Enrollment not found'' None)
      | Some enrollment0 \<Rightarrow>
          (case Class_findById (e_classId enrollment0) db of
             None \<Rightarrow> (db, Response 404 ''Class not found'' None)
           | Some classItem \<Rightarrow>
               let isStudent = (jp_id user = e_studentId enrollment0);
                   isTeacher = (jp_id user = c_teacherId classItem);
                   isAdmin = (jp_role user = ''admin'')
               in if \<not> isStudent \<and> \<not> isTeacher \<and> \<not> isAdmin then
                    (db, Response 403 ''Access denied'' None)
                  else if isStudent \<and> body_status \<noteq> Some ''dropped'' then
                    (db, Response 403 ''Students can only drop classes'' None)
                  else
                    let enrollment1 = enrollment0\<lparr>e_status := body_status\<rparr>;
                        db1 = (if body_status = Some ''dropped'' \<and> e_status enrollment1 = Some ''active''
                               then Class_save now
                                      (classItem\<lparr>c_enrollmentCount := c_enrollmentCount classItem - 1\<rparr>) db
                               else db)
                    in if \<not> Enrollment_valid enrollment1 then (db1, server_error)
                       else (Enrollment_save now enrollment1 db1,
                             Response 200 ''Enrollment updated successfully''
                               (Some (enrollment1\<lparr>e_updatedAt := now\<rparr>)))))"

text \<open>The number of Enrollment documents of a class whose status is \<open>active\<close>.\<close>

definition active_count :: "oid \<Rightarrow> class_db \<Rightarrow> int" where
  "active_count cid db =
     int (length (filter (\<lambda>e. e_classId e = cid \<and> e_status e = Some ''active'') (enrollments db)))"

text \<open>A small school: one class of capacity 2 with nobody enrolled, and a student.\<close>

definition db0 :: class_db where
  "db0 = \<lparr>classes = [\<lparr>c_id = ''c1'', c_teacherId = ''t1'', c_capacity = 2,
                        c_enrollmentCount = 0, c_updatedAt = 0\<rparr>],
          enrollments = []\<rparr>"

definition alice :: jwt_payload where
  "alice = \<lparr>jp_id = ''s1'', jp_email = ''alice@example.com'', jp_role = ''student''\<rparr>"

definition enroll_c1 :: enrollment_body where
  "enroll_c1 = \<lparr>eb_classId = Some ''c1'', eb_studentId = Some ''s1''\<rparr>"

definition db_enrolled :: class_db where
  "db_enrolled = fst (post_enrollments 10 ''e1'' alice enroll_c1 db0)"

definition db_dropped :: class_db where
  "db_dropped = fst (put_enrollments 20 alice ''e1'' (Some ''dropped'') db_enrolled)"

section \<open>Content service\<close>

text \<open>
  The content service (the source file whose \<open>PUT /content-items/:id\<close> handler keeps
  the version history). A request body is JSON: a key is absent (\<open>undefined\<close> when
  read), \<open>null\<close>, or holds a value. The handler tests \<open>content\<close> for truthiness and
  for \<open>!== undefined\<close>, so \<open>content\<close> keeps the three cases; the other keys are
  absent or hold a value of the schema's type. Attachments are written by another handler
  only and are left out of the document.
\<close>

datatype 'a json_field = Undefined | Null | Value 'a

record previous_version =
  pv_content :: "string option"
  pv_updatedAt :: nat
  pv_updatedBy :: string

record content_metadata =
  md_duration :: "int option"
  md_pageCount :: "int option"
  md_dimensions :: "string option"

record content_item =
  ci_id :: oid
  ci_title :: string
  ci_description :: string
  ci_type :: string
  ci_content :: "string option"
  ci_authorId :: string
  ci_classId :: string
  ci_tags :: "string list"
  ci_status :: string
  ci_publishDate :: "nat option"
  ci_dueDate :: "nat option"
  ci_version :: int
  ci_previousVersions :: "previous_version list"
  ci_metadata :: content_metadata
  ci_createdAt :: nat
  ci_updatedAt :: nat

record content_item_body =
  cb_title :: "string option"
  cb_description :: "string option"
  cb_type :: "string option"
  cb_content :: "string json_field"
  cb_tags :: "string list option"
  cb_status :: "string option"
  cb_publishDate :: "nat option"
  cb_dueDate :: "nat option"
  cb_metadata :: "content_metadata option"

type_synonym content_db = "content_item list"

definition ContentItem_findById :: "oid \<Rightarrow> content_db \<Rightarrow> content_item option" where
  "ContentItem_findById i db = find (\<lambda>c. ci_id c = i) db"

definition content_type_enum :: "string list" where
  "content_type_enum = [''document'', ''video'', ''image'', ''link'', ''assignment'']"

definition content_status_enum :: "string list" where
  "content_status_enum = [''draft'', ''published'', ''archived'']"

definition ContentItem_valid :: "content_item \<Rightarrow> bool" where
  \<comment> \<open>the schema validators run by \<open>save\<close>; \<open>content\<close> is required for documents and links\<close>
  "ContentItem_valid c =
     (ci_title c \<noteq> [] \<and> ci_description c \<noteq> [] \<and> ci_type c \<in> set content_type_enum \<and>
      (if ci_type c = ''document'' \<or> ci_type c = ''link''
       then ci_content c \<noteq> None \<and> ci_content c \<noteq> Some [] else True) \<and>
      ci_authorId c \<noteq> [] \<and> ci_classId c \<noteq> [] \<and> ci_status c \<in> set content_status_enum)"

definition ContentItem_save :: "nat \<Rightarrow> content_item \<Rightarrow> content_db \<Rightarrow> content_db" where
  "ContentItem_save now c db = map (\<lambda>d. if ci_id d = ci_id c then c\<lparr>ci_updatedAt := now\<rparr> else d) db"

definition content_truthy :: "string json_field \<Rightarrow> bool" where
  \<comment> \<open>\<open>req.body.content\<close> as a condition: absent, \<open>null\<close> and \<open>""\<close> are falsy\<close>
  "content_truthy f = (case f of Value s \<Rightarrow> s \<noteq> [] | _ \<Rightarrow> False)"

definition content_differs :: "string json_field \<Rightarrow> string option \<Rightarrow> bool" where
  \<comment> \<open>\<open>req.body.content !== contentItem.content\<close>; an unset content reads \<open>undefined\<close>\<close>
  "content_differs f cur =
     (case f of Value s \<Rightarrow> cur \<noteq> Some s | Null \<Rightarrow> True | Undefined \<Rightarrow> cur \<noteq> None)"

definition store_previous_version :: "content_item_body \<Rightarrow> content_item \<Rightarrow> content_item" where
  \<comment> \<open>"If content is being updated, store the previous version"\<close>
  "store_previous_version body c =
     (if content_truthy (cb_content body) \<and> content_differs (cb_content body) (ci_content c)
      then c\<lparr>ci_previousVersions := ci_previousVersions c @
                 [\<lparr>pv_content = ci_content c, pv_updatedAt = ci_updatedAt c,
                   pv_updatedBy = ci_authorId c\<rparr>],
              ci_version := ci_version c + 1\<rparr>
      else c)"

definition update_fields :: "string_methods \<Rightarrow> content_item_body \<Rightarrow> content_item \<Rightarrow> content_item" where
  \<comment> \<open>\<open>updateFields.forEach\<close>: every key of the list that is not \<open>undefined\<close> is assigned\<close>
  "update_fields js body c0 =
     (let c1 = (case cb_title body of None \<Rightarrow> c0 | Some v \<Rightarrow> c0\<lparr>ci_title := trim_setter js v\<rparr>);
          c2 = (case cb_description body of None \<Rightarrow> c1 | Some v \<Rightarrow> c1\<lparr>ci_description := v\<rparr>);
          c3 = (case cb_type body of None \<Rightarrow> c2 | Some v \<Rightarrow> c2\<lparr>ci_type := v\<rparr>);
          c4 = (case cb_content body of
                  Undefined \<Rightarrow> c3
                | Null \<Rightarrow> c3\<lparr>ci_content := None\<rparr>
                | Value v \<Rightarrow> c3\<lparr>ci_content := Some v\<rparr>);
          c5 = (case cb_tags body of None \<Rightarrow> c4 | Some v \<Rightarrow> c4\<lparr>ci_tags := v\<rparr>);
          c6 = (case cb_status body of None \<Rightarrow> c5 | Some v \<Rightarrow> c5\<lparr>ci_status := v\<rparr>);
          c7 = (case cb_publishDate body of None \<Rightarrow> c6 | Some v \<Rightarrow> c6\<lparr>ci_publishDate := Some v\<rparr>);
          c8 = (case cb_dueDate body of None \<Rightarrow> c7 | Some v \<Rightarrow> c7\<lparr>ci_dueDate := Some v\<rparr>)
      in (case cb_metadata body of None \<Rightarrow> c8 | Some v \<Rightarrow> c8\<lparr>ci_metadata := v\<rparr>))"

text \<open>\<open>PUT /content-items/:id\<close>. A document that fails validation is not written: the
  rejected \<open>save\<close> is caught and answered 500.\<close>

definition put_content_items ::
  "string_methods \<Rightarrow> nat \<Rightarrow> jwt_payload \<Rightarrow> oid \<Rightarrow> content_item_body \<Rightarrow> content_db
     \<Rightarrow> content_db \<times> content_item response" where
  "put_content_items js now user i body db =
     (case ContentItem_findById i db of
        None \<Rightarrow> (db, Response 404 ''Content item not found'' None)
      | Some contentItem \<Rightarrow>
          if jp_role user \<noteq> ''admin'' \<and> ci_authorId contentItem \<noteq> jp_id user then
            (db, Response 403
               ''Access denied. Only the author of this content or an admin can update it.'' None)
          else
            let updated = update_fields js body (store_previous_version body contentItem)
            in if \<not> ContentItem_valid updated then (db, server_error)
               else (ContentItem_save now updated db,
                     Response 200 ''Content item updated successfully''
                       (Some (updated\<lparr>ci_updatedAt := now\<rparr>))))"

text \<open>A run of update requests for one content item, each a triple of the time, the caller
  and the body, applied in order.\<close>

type_synonym content_edit = "nat \<times> jwt_payload \<times> content_item_body"

fun put_content_items_run :: "string_methods \<Rightarrow> oid \<Rightarrow> content_edit list \<Rightarrow> content_db \<Rightarrow> content_db" where
  "put_content_items_run js i [] db = db"
| "put_content_items_run js i ((now, user, body) # rest) db =
     put_content_items_run js i rest (fst (put_content_items js now user i body db))"

text \<open>The runs the history is about: every request is answered 200 and carries a non-empty
  \<open>content\<close> string that differs from the content the item holds when the request
  arrives.\<close>

fun content_edits :: "string_methods \<Rightarrow> oid \<Rightarrow> content_edit list \<Rightarrow> content_db \<Rightarrow> bool" where
  "content_edits js i [] db = True"
| "content_edits js i ((now, user, body) # rest) db =
     (case ContentItem_findById i db of
        None \<Rightarrow> False
      | Some c \<Rightarrow>
          content_truthy (cb_content body) \<and> content_differs (cb_content body) (ci_content c) \<and>
          res_status (snd (put_content_items js now user i body db)) = 200 \<and>
          content_edits js i rest (fst (put_content_items js now user i body db)))"

definition requested_content :: "content_edit \<Rightarrow> string option" where
  "requested_content e = (case cb_content (snd (snd e)) of Value s \<Rightarrow> Some s | _ \<Rightarrow> None)"

text \<open>A lesson written by teacher \<open>t1\<close>, as \<open>POST /content-items\<close> leaves it: version 1,
  no previous versions.\<close>

definition lesson :: content_item where
  "lesson = \<lparr>ci_id = ''i1'', ci_title = ''Fractions'', ci_description = ''Week 1'',
             ci_type = ''document'', ci_content = Some ''v1'', ci_authorId = ''t1'',
             ci_classId = ''c1'', ci_tags = [], ci_status = ''draft'', ci_publishDate = None,
             ci_dueDate = None, ci_version = 1, ci_previousVersions = [],
             ci_metadata = \<lparr>md_duration = None, md_pageCount = None, md_dimensions = None\<rparr>,
             ci_createdAt = 5, ci_updatedAt = 5\<rparr>"

definition teacher1 :: jwt_payload where
  "teacher1 = \<lparr>jp_id = ''t1'', jp_email = ''t1@example.com'', jp_role = ''teacher''\<rparr>"

definition content_only :: "string \<Rightarrow> content_item_body" where
  "content_only s = \<lparr>cb_title = None, cb_description = None, cb_type = None,
                     cb_content = Value s, cb_tags = None, cb_status = None,
                     cb_publishDate = None, cb_dueDate = None, cb_metadata = None\<rparr>"

text \<open>Two edits of the lesson by its author, to \<open>v2\<close> and then to \<open>v3\<close>.\<close>

definition two_edits :: "content_edit list" where
  "two_edits = [(10, teacher1, content_only ''v2''), (20, teacher1, content_only ''v3'')]"

section \<open>User service\<close>

text \<open>
  \<open>backend/user-service/server.js\<close>. Three libraries decide what the handlers do with a
  string and are arguments of the model: Joi's \<open>email()\<close> rule, and bcrypt's \<open>hash\<close>
  (of a password and a salt) and \<open>compare\<close> (of a password and a hash). The secret that
  signs tokens is \<open>process.env.JWT_SECRET || 'your-secret-key'\<close>, an argument too.
\<close>

record externals =
  joi_email :: "string \<Rightarrow> bool"
  bcrypt_hash :: "string \<Rightarrow> string \<Rightarrow> string"
  bcrypt_compare :: "string \<Rightarrow> string \<Rightarrow> bool"
  jwt_secret :: string

text \<open>A token is the payload, the secret that signed it and its expiry (seconds);
  \<open>verify\<close> checks the last two, \<open>decode\<close> reads the payload.\<close>

datatype jwt = Jwt jwt_payload string nat

definition jwt_sign_1d :: "jwt_payload \<Rightarrow> string \<Rightarrow> nat \<Rightarrow> jwt" where
  \<comment> \<open>\<open>jwt.sign(payload, secret, { expiresIn: '1d' })\<close> at \<open>now\<close> milliseconds\<close>
  "jwt_sign_1d p secret now = Jwt p secret (now div 1000 + 86400)"

definition jwt_verify :: "jwt \<Rightarrow> string \<Rightarrow> nat \<Rightarrow> jwt_payload option" where
  "jwt_verify t secret now =
     (case t of Jwt p s e \<Rightarrow> if s = secret \<and> now div 1000 < e then Some p else None)"

definition jwt_decode :: "jwt \<Rightarrow> jwt_payload" where
  "jwt_decode t = (case t of Jwt p s e \<Rightarrow> p)"

type_synonym json_object = "(string \<times> string) list"

record user =
  u_id :: oid
  u_username :: string
  u_email :: string
  u_passwordHash :: string
  u_firstName :: string
  u_lastName :: string
  u_role :: string
  u_avatar :: string
  u_status :: string
  u_lastLogin :: "nat option"
  u_preferences :: json_object
  u_contactInfo :: json_object
  u_createdAt :: nat
  u_updatedAt :: nat

type_synonym user_db = "user list"

definition email_setters :: "string_methods \<Rightarrow> string \<Rightarrow> string" where
  \<comment> \<open>\<open>email: { trim: true, lowercase: true }\<close>: both setters, on the stored and on the
      queried value alike\<close>
  "email_setters js s = lowercase_setter js (trim_setter js s)"

definition role_enum :: "string list" where
  "role_enum = [''admin'', ''teacher'', ''student'']"

definition user_status_enum :: "string list" where
  "user_status_enum = [''active'', ''inactive'', ''suspended'']"

definition User_valid :: "user \<Rightarrow> bool" where
  \<comment> \<open>the schema validators run by \<open>save\<close>, on the values the setters have stored\<close>
  "User_valid u =
     (3 \<le> length (u_username u) \<and> u_email u \<noteq> [] \<and> u_passwordHash u \<noteq> [] \<and>
      u_firstName u \<noteq> [] \<and> u_lastName u \<noteq> [] \<and> u_role u \<in> set role_enum \<and>
      u_status u \<in> set user_status_enum)"

definition User_findById :: "oid \<Rightarrow> user_db \<Rightarrow> user option" where
  "User_findById i db = find (\<lambda>u. u_id u = i) db"

text \<open>Mongoose casts a query's values with the schema's setters, so a query by email or
  username compares the trimmed, lower-cased value with the stored one.\<close>

definition User_findOne_email :: "string_methods \<Rightarrow> string \<Rightarrow> user_db \<Rightarrow> user option" where
  "User_findOne_email js email db = find (\<lambda>u. u_email u = email_setters js email) db"

definition User_findOne_email_or_username :: "string_methods \<Rightarrow> string \<Rightarrow> string \<Rightarrow> user_db \<Rightarrow> user option" where
  \<comment> \<open>\<open>User.findOne({ $or: [{ email }, { username }] })\<close>\<close>
  "User_findOne_email_or_username js email username db =
     find (\<lambda>u. u_email u = email_setters js email \<or> u_username u = trim_setter js username) db"

definition User_save :: "nat \<Rightarrow> user \<Rightarrow> user_db \<Rightarrow> user_db" where
  "User_save now u db = map (\<lambda>d. if u_id d = u_id u then u\<lparr>u_updatedAt := now\<rparr> else d) db"

record register_body =
  rb_username :: "string option"
  rb_email :: "string option"
  rb_password :: "string option"
  rb_firstName :: "string option"
  rb_lastName :: "string option"
  rb_role :: "string option"

definition joi_string_min :: "nat \<Rightarrow> string \<Rightarrow> string option \<Rightarrow> string + string" where
  \<comment> \<open>\<open>Joi.string().min(n).required()\<close>, for a one-digit \<open>n\<close>\<close>
  "joi_string_min n k v =
     (case joi_string_required k v of
        Inl err \<Rightarrow> Inl err
      | Inr s \<Rightarrow>
          if length s < n
          then Inl (joi_quote k @ '' length must be at least '' @ [char_of (48 + n)] @ '' characters long'')
          else Inr s)"

definition joi_string_email :: "externals \<Rightarrow> string \<Rightarrow> string option \<Rightarrow> string + string" where
  \<comment> \<open>\<open>Joi.string().email().required()\<close>\<close>
  "joi_string_email ext k v =
     (case joi_string_required k v of
        Inl err \<Rightarrow> Inl err
      | Inr s \<Rightarrow> if joi_email ext s then Inr s else Inl (joi_quote k @ '' must be a valid email''))"

definition joi_role :: "string \<Rightarrow> string option \<Rightarrow> string + string" where
  \<comment> \<open>\<open>Joi.string().valid('admin', 'teacher', 'student').required()\<close>\<close>
  "joi_role k v =
     (case v of
        None \<Rightarrow> Inl (joi_quote k @ '' is required'')
      | Some s \<Rightarrow> if s \<in> set role_enum then Inr s
                  else Inl (joi_quote k @ '' must be one of [admin, teacher, student]''))"

record registration =
  rg_username :: string
  rg_email :: string
  rg_password :: string
  rg_firstName :: string
  rg_lastName :: string
  rg_role :: string

definition registerSchema :: "externals \<Rightarrow> register_body \<Rightarrow> string + registration" where
  \<comment> \<open>the keys are validated in the schema's order; the first error is reported\<close>
  "registerSchema ext body =
     (case joi_string_min 3 ''username'' (rb_username body) of Inl err \<Rightarrow> Inl err | Inr username \<Rightarrow>
      case joi_string_email ext ''email'' (rb_email body) of Inl err \<Rightarrow> Inl err | Inr email \<Rightarrow>
      case joi_string_min 6 ''password'' (rb_password body) of Inl err \<Rightarrow> Inl err | Inr password \<Rightarrow>
      case joi_string_required ''firstName'' (rb_firstName body) of Inl err \<Rightarrow> Inl err | Inr firstName \<Rightarrow>
      case joi_string_required ''lastName'' (rb_lastName body) of Inl err \<Rightarrow> Inl err | Inr lastName \<Rightarrow>
      case joi_role ''role'' (rb_role body) of Inl err \<Rightarrow> Inl err | Inr role \<Rightarrow>
        Inr \<lparr>rg_username = username, rg_email = email, rg_password = password,
             rg_firstName = firstName, rg_lastName = lastName, rg_role = role\<rparr>)"

definition default_preferences :: json_object where
  "default_preferences =
     [(''theme'', ''light''), (''notifications'', ''true''), (''language'', ''en'')]"

text \<open>\<open>POST /auth/register\<close>. \<open>salt\<close> is what \<open>bcrypt.genSalt(10)\<close> returns. After the
  existence check no stored user has the new email or username, so the unique indexes
  cannot reject the insert.\<close>

definition post_auth_register ::
  "string_methods \<Rightarrow> externals \<Rightarrow> nat \<Rightarrow> oid \<Rightarrow> string \<Rightarrow> register_body \<Rightarrow> user_db \<Rightarrow> user_db \<times> unit response" where
  "post_auth_register js ext now newId salt body db =
     (case registerSchema ext body of
        Inl err \<Rightarrow> (db, Response 400 err None)
      | Inr r \<Rightarrow>
          (case User_findOne_email_or_username js (rg_email r) (rg_username r) db of
             Some existingUser \<Rightarrow> (db, Response 400 ''User already exists'' None)
           | None \<Rightarrow>
               let passwordHash = bcrypt_hash ext (rg_password r) salt;
                   newUser = \<lparr>u_id = newId, u_username = trim_setter js (rg_username r),
                              u_email = email_setters js (rg_email r), u_passwordHash = passwordHash,
                              u_firstName = trim_setter js (rg_firstName r), u_lastName = trim_setter js (rg_lastName r),
                              u_role = rg_role r, u_avatar = [], u_status = ''active'',
                              u_lastLogin = None, u_preferences = default_preferences,
                              u_contactInfo = [], u_createdAt = now, u_updatedAt = now\<rparr>
               in if \<not> User_valid newUser then (db, server_error)
                  else (db @ [newUser], Response 201 ''User registered successfully'' None)))"

record login_body =
  lb_email :: "string option"
  lb_password :: "string option"

definition loginSchema :: "externals \<Rightarrow> login_body \<Rightarrow> string + (string \<times> string)" where
  "loginSchema ext body =
     (case joi_string_email ext ''email'' (lb_email body) of Inl err \<Rightarrow> Inl err | Inr email \<Rightarrow>
      case joi_string_required ''password'' (lb_password body) of Inl err \<Rightarrow> Inl err | Inr password \<Rightarrow>
        Inr (email, password))"

record user_summary =
  us_id :: oid
  us_username :: string
  us_email :: string
  us_firstName :: string
  us_lastName :: string
  us_role :: string

record login_reply =
  lr_token :: jwt
  lr_user :: user_summary

definition summary_of :: "user \<Rightarrow> user_summary" where
  "summary_of u = \<lparr>us_id = u_id u, us_username = u_username u, us_email = u_email u,
                   us_firstName = u_firstName u, us_lastName = u_lastName u, us_role = u_role u\<rparr>"

text \<open>\<open>POST /auth/login\<close>, with passport's local strategy written out (find the user by
  email, compare the password). \<open>user.save()\<close> after setting \<open>lastLogin\<close> is not
  awaited: a rejected save changes nothing and is not reported.\<close>

definition post_auth_login ::
  "string_methods \<Rightarrow> externals \<Rightarrow> nat \<Rightarrow> login_body \<Rightarrow> user_db \<Rightarrow> user_db \<times> login_reply response" where
  "post_auth_login js ext now body db =
     (case loginSchema ext body of
        Inl err \<Rightarrow> (db, Response 400 err None)
      | Inr (email, password) \<Rightarrow>
          (case User_findOne_email js email db of
             None \<Rightarrow> (db, Response 401 ''Incorrect email.'' None)
           | Some user0 \<Rightarrow>
               if \<not> bcrypt_compare ext password (u_passwordHash user0) then
                 (db, Response 401 ''Incorrect password.'' None)
               else
                 let user1 = user0\<lparr>u_lastLogin := Some now\<rparr>;
                     db1 = (if User_valid user1 then User_save now user1 db else db);
                     token = jwt_sign_1d \<lparr>jp_id = u_id user1, jp_email = u_email user1,
                                           jp_role = u_role user1\<rparr> (jwt_secret ext) now
                 in (db1, Response 200 [] (Some \<lparr>lr_token = token, lr_user = summary_of user1\<rparr>))))"

record user_update_body =
  ub_firstName :: "string option"
  ub_lastName :: "string option"
  ub_avatar :: "string option"
  ub_contactInfo :: "json_object option"
  ub_preferences :: "json_object option"
  ub_role :: "string option"
  ub_status :: "string option"

definition update_user_fields :: "string_methods \<Rightarrow> user_update_body \<Rightarrow> user \<Rightarrow> user" where
  \<comment> \<open>\<open>['firstName', 'lastName', 'avatar', 'contactInfo', 'preferences'].forEach\<close> with
      \<open>if (req.body[field])\<close>: an absent key and \<open>""\<close> are falsy, an object is truthy\<close>
  "update_user_fields js body u0 =
     (let u1 = (case ub_firstName body of
                  Some v \<Rightarrow> if v \<noteq> [] then u0\<lparr>u_firstName := trim_setter js v\<rparr> else u0 | None \<Rightarrow> u0);
          u2 = (case ub_lastName body of
                  Some v \<Rightarrow> if v \<noteq> [] then u1\<lparr>u_lastName := trim_setter js v\<rparr> else u1 | None \<Rightarrow> u1);
          u3 = (case ub_avatar body of
                  Some v \<Rightarrow> if v \<noteq> [] then u2\<lparr>u_avatar := v\<rparr> else u2 | None \<Rightarrow> u2);
          u4 = (case ub_contactInfo body of Some v \<Rightarrow> u3\<lparr>u_contactInfo := v\<rparr> | None \<Rightarrow> u3)
      in (case ub_preferences body of Some v \<Rightarrow> u4\<lparr>u_preferences := v\<rparr> | None \<Rightarrow> u4))"

definition update_admin_fields :: "user_update_body \<Rightarrow> user \<Rightarrow> user" where
  \<comment> \<open>"Admin can update additional fields": \<open>if (req.body.role) user.role = req.body.role\<close>\<close>
  "update_admin_fields body u0 =
     (let u1 = (case ub_role body of
                  Some v \<Rightarrow> if v \<noteq> [] then u0\<lparr>u_role := v\<rparr> else u0 | None \<Rightarrow> u0)
      in (case ub_status body of
            Some v \<Rightarrow> if v \<noteq> [] then u1\<lparr>u_status := v\<rparr> else u1 | None \<Rightarrow> u1))"

record user_update_reply =
  ur_summary :: user_summary
  ur_status :: string

text \<open>\<open>PUT /users/:id\<close>. The passport JWT strategy loads \<open>req.user\<close> from the store by
  the token's id and answers 401 when there is no such user.\<close>

definition put_users ::
  "string_methods \<Rightarrow> nat \<Rightarrow> jwt_payload \<Rightarrow> oid \<Rightarrow> user_update_body \<Rightarrow> user_db \<Rightarrow> user_db \<times> user_update_reply response" where
  "put_users js now payload i body db =
     (case User_findById (jp_id payload) db of
        None \<Rightarrow> (db, Response 401 ''Unauthorized'' None)
      | Some req_user \<Rightarrow>
          if u_role req_user \<noteq> ''admin'' \<and> u_id req_user \<noteq> i then
            (db, Response 403 ''Access denied'' None)
          else
            (case User_findById i db of
               None \<Rightarrow> (db, Response 404 ''User not found'' None)
             | Some user0 \<Rightarrow>
                 let user1 = update_user_fields js body user0;
                     user2 = (if u_role req_user = ''admin'' then update_admin_fields body user1
                              else user1)
                 in if \<not> User_valid user2 then (db, server_error)
                    else (User_save now user2 db,
                          Response 200 ''User updated successfully''
                            (Some \<lparr>ur_summary = summary_of user2, ur_status = u_status user2\<rparr>))))"

text \<open>
  Sample data. A stand-in for the libraries whose \<open>compare\<close> accepts a password against
  every hash of it; a registration with a mixed-case email; and the student Bob with his
  token and a request that renames him and asks for the admin role.
\<close>

definition toy_externals :: externals where
  "toy_externals = \<lparr>joi_email = (\<lambda>s. CHR ''@'' \<in> set s),
                      bcrypt_hash = (\<lambda>p s. p @ ''$'' @ s),
                      bcrypt_compare = (\<lambda>p h. take (length p + 1) h = p @ ''$''),
                      jwt_secret = ''your-secret-key''\<rparr>"

definition alice_registration :: register_body where
  "alice_registration = \<lparr>rb_username = Some ''alice'', rb_email = Some ''Alice@Example.com'',
       rb_password = Some ''secret1'', rb_firstName = Some ''Alice'', rb_lastName = Some ''Liddell'',
       rb_role = Some ''student''\<rparr>"

definition bob :: user where
  "bob = \<lparr>u_id = ''u2'', u_username = ''bob'', u_email = ''bob@example.com'',
          u_passwordHash = ''$2a$10$hash'', u_firstName = ''Bob'', u_lastName = ''Stone'',
          u_role = ''student'', u_avatar = [], u_status = ''active'', u_lastLogin = None,
          u_preferences = default_preferences, u_contactInfo = [], u_createdAt = 7,
          u_updatedAt = 7\<rparr>"

definition bob_token :: jwt_payload where
  "bob_token = \<lparr>jp_id = ''u2'', jp_email = ''bob@example.com'', jp_role = ''student''\<rparr>"

definition rename_bobby :: user_update_body where
  "rename_bobby = \<lparr>ub_firstName = Some ''Bobby'', ub_lastName = None, ub_avatar = None,
                   ub_contactInfo = None, ub_preferences = None, ub_role = Some ''admin'',
                   ub_status = None\<rparr>"

section \<open>Communication service\<close>

text \<open>
  \<open>backend/communication-service/server.js\<close>: the stored Messages, Announcements and
  Notifications, and the socket.io server's connected sockets with the rooms each has
  joined. A handler returns the state it leaves and the events it emits, each paired with
  the id of the socket that receives it. Attachments are written by other handlers only
  and are left out of the documents.
\<close>

record message =
  m_id :: oid
  m_senderId :: string
  m_recipientId :: string
  m_subject :: string
  m_content :: string
  m_read :: bool
  m_readAt :: "nat option"
  m_createdAt :: nat

record target_audience =
  ta_type :: string
  ta_classId :: "string option"
  ta_role :: "string option"

record announcement =
  a_id :: oid
  a_title :: string
  a_content :: string
  a_authorId :: string
  a_targetAudience :: target_audience
  a_priority :: string
  a_startDate :: nat
  a_endDate :: "nat option"
  a_createdAt :: nat
  a_updatedAt :: nat

record related_to =
  rt_type :: string
  rt_id :: string

record notification =
  n_id :: oid
  n_userId :: string
  n_title :: string
  n_message :: string
  n_type :: string
  n_relatedTo :: related_to
  n_read :: bool
  n_readAt :: "nat option"
  n_createdAt :: nat

record socket =
  s_id :: string
  s_userId :: "string option"
  s_role :: "string option"
  s_rooms :: "string list"

record comm_state =
  messages :: "message list"
  announcements :: "announcement list"
  notifications :: "notification list"
  sockets :: "socket list"

datatype event =
    Authenticated bool "string option"
  | Error string
  | New_message message notification
  | Message_sent bool oid
  | New_announcement announcement

type_synonym emission = "string \<times> event"

definition socket_emit :: "string \<Rightarrow> event \<Rightarrow> emission list" where
  \<comment> \<open>\<open>socket.emit(...)\<close>: to this socket only\<close>
  "socket_emit sid ev = [(sid, ev)]"

definition io_emit :: "event \<Rightarrow> comm_state \<Rightarrow> emission list" where
  \<comment> \<open>\<open>io.emit(...)\<close>: to every connected socket\<close>
  "io_emit ev st = map (\<lambda>s. (s_id s, ev)) (sockets st)"

definition io_to :: "string \<Rightarrow> event \<Rightarrow> comm_state \<Rightarrow> emission list" where
  \<comment> \<open>\<open>io.to(room).emit(...)\<close>: to the sockets that have joined the room\<close>
  "io_to room ev st = map (\<lambda>s. (s_id s, ev)) (filter (\<lambda>s. room \<in> set (s_rooms s)) (sockets st))"

definition on_connection :: "string \<Rightarrow> comm_state \<Rightarrow> comm_state" where
  \<comment> \<open>a new socket is in the room of its own id and bound to no user\<close>
  "on_connection sid st =
     st\<lparr>sockets := sockets st @ [\<lparr>s_id = sid, s_userId = None, s_role = None, s_rooms = [sid]\<rparr>]\<rparr>"

definition on_authenticate ::
  "string \<Rightarrow> nat \<Rightarrow> string \<Rightarrow> jwt \<Rightarrow> comm_state \<Rightarrow> comm_state \<times> emission list" where
  "on_authenticate secret now sid token st =
     (case jwt_verify token secret now of
        Some decoded \<Rightarrow>
          (st\<lparr>sockets := map (\<lambda>s. if s_id s = sid
                                   then s\<lparr>s_userId := Some (jp_id decoded),
                                          s_role := Some (jp_role decoded),
                                          s_rooms := s_rooms s @ [''user:'' @ jp_id decoded,
                                                                  ''role:'' @ jp_role decoded]\<rparr>
                                   else s) (sockets st)\<rparr>,
           socket_emit sid (Authenticated True None))
      | None \<Rightarrow> (st, socket_emit sid (Authenticated False (Some ''Authentication failed''))))"

definition Message_valid :: "message \<Rightarrow> bool" where
  "Message_valid m =
     (m_senderId m \<noteq> [] \<and> m_recipientId m \<noteq> [] \<and> m_subject m \<noteq> [] \<and> m_content m \<noteq> [])"

definition Notification_valid :: "notification \<Rightarrow> bool" where
  "Notification_valid n =
     (n_userId n \<noteq> [] \<and> n_title n \<noteq> [] \<and> n_message n \<noteq> [] \<and>
      n_type n \<in> set [''info'', ''warning'', ''error'', ''success''] \<and>
      rt_type (n_relatedTo n) \<in> set [''message'', ''announcement'', ''content'', ''class''] \<and>
      rt_id (n_relatedTo n) \<noteq> [])"

record private_message_data =
  pm_recipientId :: "string option"
  pm_subject :: "string option"
  pm_content :: "string option"

definition or_empty :: "string option \<Rightarrow> string" where
  \<comment> \<open>a key the payload lacks fails \<open>required\<close> exactly as \<open>""\<close> does\<close>
  "or_empty v = (case v of None \<Rightarrow> [] | Some s \<Rightarrow> s)"

record ack_response =
  ar_success :: bool
  ar_message :: "string option"
  ar_messageId :: "oid option"

text \<open>
  \<open>socket.on('private-message', async (data) => ...)\<close>. \<open>mid\<close> and \<open>nid\<close> are the ids
  of the new Message and Notification; \<open>data\<close> is \<open>None\<close> when the client sent no
  payload (destructuring it throws). The third component of the result is what the
  handler passes to the acknowledgement callback of the event: the handler takes
  \<open>data\<close> only, so it has no callback to call.
\<close>

definition on_private_message ::
  "string_methods \<Rightarrow> nat \<Rightarrow> oid \<Rightarrow> oid \<Rightarrow> string \<Rightarrow> private_message_data option \<Rightarrow> comm_state
     \<Rightarrow> comm_state \<times> emission list \<times> ack_response option" where
  "on_private_message js now mid nid sid data st =
     (case find (\<lambda>s. s_id s = sid) (sockets st) of
        None \<Rightarrow> (st, [], None)
      | Some socket \<Rightarrow>
          (case s_userId socket of
             None \<Rightarrow> (st, socket_emit sid (Error ''Not authenticated''), None)
           | Some userId \<Rightarrow>
               if userId = [] then (st, socket_emit sid (Error ''Not authenticated''), None)
               else (case data of
                  None \<Rightarrow> (st, socket_emit sid (Error ''Failed to send message''), None)
                | Some d \<Rightarrow>
                    let recipientId = or_empty (pm_recipientId d);
                        subject = or_empty (pm_subject d);
                        newMessage = \<lparr>m_id = mid, m_senderId = userId, m_recipientId = recipientId,
                                       m_subject = trim_setter js subject, m_content = or_empty (pm_content d),
                                       m_read = False, m_readAt = None, m_createdAt = now\<rparr>
                    in if \<not> Message_valid newMessage then
                         (st, socket_emit sid (Error ''Failed to send message''), None)
                       else
                         let st1 = st\<lparr>messages := messages st @ [newMessage]\<rparr>;
                             notification = \<lparr>n_id = nid, n_userId = recipientId,
                                n_title = ''New Message'',
                                n_message = ''You have a new message from '' @ userId @ '': '' @ subject,
                                n_type = ''info'',
                                n_relatedTo = \<lparr>rt_type = ''message'', rt_id = mid\<rparr>,
                                n_read = False, n_readAt = None, n_createdAt = now\<rparr>
                         in if \<not> Notification_valid notification then
                              (st1, socket_emit sid (Error ''Failed to send message''), None)
                            else
                              let st2 = st1\<lparr>notifications := notifications st1 @ [notification]\<rparr>
                              in (st2,
                                  io_to (''user:'' @ recipientId)
                                        (New_message newMessage notification) st2
                                    @ socket_emit sid (Message_sent True mid),
                                  None))))"

text \<open>\<open>GET /notifications\<close>: the caller's notifications, newest first.\<close>

definition get_notifications :: "jwt_payload \<Rightarrow> comm_state \<Rightarrow> notification list response" where
  "get_notifications user st =
     Response 200 []
       (Some (rev (sort_key n_createdAt
                     (filter (\<lambda>n. n_userId n = jp_id user) (notifications st)))))"

text \<open>
  The client's \<open>sendPrivateMessage\<close> thunk
  (\<open>frontend/src/store/slices/communicationSlice.js\<close>). It emits the event with an
  acknowledgement callback and starts a 5000 ms timer; the promise settles with whichever
  comes first. \<open>ack\<close> is the response passed to the callback before the timer fires,
  \<open>None\<close> when the callback has not been called by then.
\<close>

datatype thunk_outcome = Fulfilled ack_response | Rejected string

definition sendPrivateMessage :: "bool \<Rightarrow> ack_response option \<Rightarrow> thunk_outcome" where
  "sendPrivateMessage connected ack =
     (if \<not> connected then Rejected ''Socket not connected''
      else case ack of
        Some response \<Rightarrow>
          if ar_success response then Fulfilled response
          else Rejected (if or_empty (ar_message response) \<noteq> [] then or_empty (ar_message response)
                         else ''Failed to send message'')
      | None \<Rightarrow> Rejected ''Socket response timeout'')"

record target_audience_body =
  tb_type :: "string option"
  tb_classId :: "string option"
  tb_role :: "string option"

record announcement_body =
  ab_title :: "string option"
  ab_content :: "string option"
  ab_targetAudience :: "target_audience_body option"
  ab_priority :: "string option"
  ab_startDate :: "nat option"
  ab_endDate :: "nat option"

definition joi_string_optional :: "string \<Rightarrow> string option \<Rightarrow> string + string option" where
  \<comment> \<open>\<open>Joi.string()\<close> on an optional key: an absent key passes, \<open>""\<close> does not\<close>
  "joi_string_optional k v =
     (case v of
        None \<Rightarrow> Inr None
      | Some s \<Rightarrow> if s = [] then Inl (joi_quote k @ '' is not allowed to be empty'') else Inr (Some s))"

definition joi_valid :: "string list \<Rightarrow> string \<Rightarrow> string \<Rightarrow> string option \<Rightarrow> string + string option" where
  \<comment> \<open>\<open>Joi.string().valid(...)\<close> on an optional key; \<open>shown\<close> is the list as the message prints it\<close>
  "joi_valid allowed shown k v =
     (case v of
        None \<Rightarrow> Inr None
      | Some s \<Rightarrow> if s \<in> set allowed then Inr (Some s)
                  else Inl (joi_quote k @ '' must be one of '' @ shown))"

definition joi_targetAudience :: "target_audience_body option \<Rightarrow> string + target_audience" where
  \<comment> \<open>\<open>type\<close> is required; \<open>classId\<close> is required when it is \<open>class\<close>, \<open>role\<close> when it is \<open>role\<close>\<close>
  "joi_targetAudience v =
     (case v of
        None \<Rightarrow> Inl (joi_quote ''targetAudience'' @ '' is required'')
      | Some t \<Rightarrow>
          (case joi_valid [''all'', ''class'', ''role''] ''[all, class, role]''
                  ''targetAudience.type'' (tb_type t) of
             Inl err \<Rightarrow> Inl err
           | Inr None \<Rightarrow> Inl (joi_quote ''targetAudience.type'' @ '' is required'')
           | Inr (Some ty) \<Rightarrow>
               (case joi_string_optional ''targetAudience.classId'' (tb_classId t) of
                  Inl err \<Rightarrow> Inl err
                | Inr classId \<Rightarrow>
                    if ty = ''class'' \<and> classId = None then
                      Inl (joi_quote ''targetAudience.classId'' @ '' is required'')
                    else
                      (case joi_valid role_enum ''[admin, teacher, student]''
                              ''targetAudience.role'' (tb_role t) of
                         Inl err \<Rightarrow> Inl err
                       | Inr role \<Rightarrow>
                           if ty = ''role'' \<and> role = None then
                             Inl (joi_quote ''targetAudience.role'' @ '' is required'')
                           else Inr \<lparr>ta_type = ty, ta_classId = classId, ta_role = role\<rparr>))))"

record announcement_input =
  ai_title :: string
  ai_content :: string
  ai_targetAudience :: target_audience
  ai_priority :: "string option"

definition announcementSchema_joi :: "announcement_body \<Rightarrow> string + announcement_input" where
  "announcementSchema_joi body =
     (case joi_string_required ''title'' (ab_title body) of Inl err \<Rightarrow> Inl err | Inr title \<Rightarrow>
      case joi_string_required ''content'' (ab_content body) of Inl err \<Rightarrow> Inl err | Inr content \<Rightarrow>
      case joi_targetAudience (ab_targetAudience body) of Inl err \<Rightarrow> Inl err | Inr audience \<Rightarrow>
      case joi_valid [''low'', ''medium'', ''high''] ''[low, medium, high]'' ''priority''
             (ab_priority body) of Inl err \<Rightarrow> Inl err | Inr priority \<Rightarrow>
        Inr \<lparr>ai_title = title, ai_content = content, ai_targetAudience = audience,
             ai_priority = priority\<rparr>)"

definition Announcement_valid :: "announcement \<Rightarrow> bool" where
  "Announcement_valid a =
     (a_title a \<noteq> [] \<and> a_content a \<noteq> [] \<and> a_authorId a \<noteq> [] \<and>
      ta_type (a_targetAudience a) \<in> set [''all'', ''class'', ''role''] \<and>
      (case ta_role (a_targetAudience a) of None \<Rightarrow> True | Some r \<Rightarrow> r \<in> set role_enum) \<and>
      a_priority a \<in> set [''low'', ''medium'', ''high''])"

definition role_room :: "string option \<Rightarrow> string" where
  \<comment> \<open>the template \<open>`role:${role}`\<close>; an unset role prints as \<open>undefined\<close>\<close>
  "role_room r = ''role:'' @ (case r of None \<Rightarrow> ''undefined'' | Some v \<Rightarrow> v)"

definition announce :: "announcement \<Rightarrow> comm_state \<Rightarrow> emission list" where
  \<comment> \<open>"Notify users based on target audience"\<close>
  "announce a st =
     (if ta_type (a_targetAudience a) = ''all'' then io_emit (New_announcement a) st
      else if ta_type (a_targetAudience a) = ''role'' then
        io_to (role_room (ta_role (a_targetAudience a))) (New_announcement a) st
      else if ta_type (a_targetAudience a) = ''class'' then io_emit (New_announcement a) st
      else [])"

text \<open>\<open>POST /announcements\<close>.\<close>

definition post_announcements ::
  "string_methods \<Rightarrow> nat \<Rightarrow> oid \<Rightarrow> jwt_payload \<Rightarrow> announcement_body \<Rightarrow> comm_state
     \<Rightarrow> comm_state \<times> emission list \<times> announcement response" where
  "post_announcements js now newId user body st =
     (if jp_role user \<noteq> ''teacher'' \<and> jp_role user \<noteq> ''admin'' then
        (st, [], Response 403
           ''Access denied. Only teachers and admins can create announcements.'' None)
      else case announcementSchema_joi body of
        Inl err \<Rightarrow> (st, [], Response 400 err None)
      | Inr input \<Rightarrow>
          let newAnnouncement = \<lparr>a_id = newId, a_title = trim_setter js (ai_title input),
                a_content = ai_content input, a_authorId = jp_id user,
                a_targetAudience = ai_targetAudience input,
                a_priority = (case ai_priority input of None \<Rightarrow> ''medium'' | Some p \<Rightarrow> p),
                a_startDate = (case ab_startDate body of None \<Rightarrow> now | Some d \<Rightarrow> d),
                a_endDate = ab_endDate body, a_createdAt = now, a_updatedAt = now\<rparr>
          in if \<not> Announcement_valid newAnnouncement then (st, [], server_error)
             else
               let st1 = st\<lparr>announcements := announcements st @ [newAnnouncement]\<rparr>
               in (st1, announce newAnnouncement st1,
                   Response 201 ''Announcement created successfully'' (Some newAnnouncement)))"

text \<open>
  The Mongo query of \<open>GET /announcements\<close>: a bound on \<open>startDate\<close> and an \<open>$or\<close> of
  clauses, each a conjunction of conditions on one document.
\<close>

datatype condition =
    EndDate_exists bool
  | EndDate_gte nat
  | Audience_type string
  | Audience_role string

record announcement_query =
  q_startDate_lte :: nat
  q_or :: "condition list list"

fun holds :: "announcement \<Rightarrow> condition \<Rightarrow> bool" where
  "holds a (EndDate_exists b) = ((a_endDate a \<noteq> None) = b)"
| "holds a (EndDate_gte t) = (case a_endDate a of None \<Rightarrow> False | Some e \<Rightarrow> t \<le> e)"
| "holds a (Audience_type ty) = (ta_type (a_targetAudience a) = ty)"
| "holds a (Audience_role r) = (ta_role (a_targetAudience a) = Some r)"

definition matches :: "announcement_query \<Rightarrow> announcement \<Rightarrow> bool" where
  "matches q a = (a_startDate a \<le> q_startDate_lte q \<and> list_ex (list_all (holds a)) (q_or q))"

definition priority_key :: "string \<Rightarrow> nat" where
  \<comment> \<open>the order of the three priority strings under \<open>sort\<close>: \<open>high < low < medium\<close>\<close>
  "priority_key p = (if p = ''high'' then 0 else if p = ''low'' then 1 else 2)"

text \<open>
  \<open>GET /announcements\<close>. The handler builds the query with an \<open>$or\<close> on \<open>endDate\<close> and
  then assigns \<open>query.$or\<close> again with the audience clauses. The result is sorted by
  priority and creation time, both descending.
\<close>

definition get_announcements :: "nat \<Rightarrow> jwt_payload \<Rightarrow> comm_state \<Rightarrow> announcement list response" where
  "get_announcements now user st =
     (let query0 = \<lparr>q_startDate_lte = now, q_or = [[EndDate_exists False], [EndDate_gte now]]\<rparr>;
          query1 = query0\<lparr>q_or := [[Audience_type ''all''],
                                    [Audience_type ''role'', Audience_role (jp_role user)]]\<rparr>;
          query2 = (if jp_role user = ''student'' \<or> jp_role user = ''teacher''
                    then query1\<lparr>q_or := q_or query1 @ [[Audience_type ''class'']]\<rparr>
                    else query1)
      in Response 200 []
           (Some (rev (sort_key (\<lambda>a. priority_key (a_priority a))
                         (sort_key a_createdAt (filter (matches query2) (announcements st)))))))"

text \<open>The audience rule in the words of the specification: type \<open>all\<close>; type \<open>role\<close>
  with the caller's role; or, for students and teachers, any type \<open>class\<close>.\<close>

definition audience_includes :: "jwt_payload \<Rightarrow> announcement \<Rightarrow> bool" where
  "audience_includes user a =
     (ta_type (a_targetAudience a) = ''all'' \<or>
      (ta_type (a_targetAudience a) = ''role'' \<and> ta_role (a_targetAudience a) = Some (jp_role user)) \<or>
      ((jp_role user = ''student'' \<or> jp_role user = ''teacher'') \<and>
       ta_type (a_targetAudience a) = ''class''))"

text \<open>
  Sample data. Student \<open>s1\<close> has connected socket \<open>k1\<close> and authenticated it; socket
  \<open>k2\<close> has connected and not authenticated; teacher \<open>t1\<close> has no socket. Then a
  message for the teacher, the same message without a subject, an announcement for the
  students as posted and as stored, and a
  store holding one announcement to all whose \<open>endDate\<close> is 10.
\<close>

definition comm0 :: comm_state where
  "comm0 = \<lparr>messages = [], announcements = [], notifications = [], sockets = []\<rparr>"

definition alice_jwt :: jwt where
  "alice_jwt = jwt_sign_1d alice ''your-secret-key'' 0"

definition teacher1_jwt :: jwt where
  "teacher1_jwt = jwt_sign_1d teacher1 ''your-secret-key'' 0"

definition comm_online :: comm_state where
  "comm_online =
     on_connection ''k2''
       (fst (on_authenticate ''your-secret-key'' 1000 ''k1'' alice_jwt (on_connection ''k1'' comm0)))"

definition hello :: private_message_data where
  "hello = \<lparr>pm_recipientId = Some ''t1'', pm_subject = Some ''Hi'', pm_content = Some ''Hello''\<rparr>"

definition no_subject :: private_message_data where
  "no_subject = \<lparr>pm_recipientId = Some ''t1'', pm_subject = None, pm_content = Some ''Hello''\<rparr>"

definition student_notice :: announcement_body where
  "student_notice = \<lparr>ab_title = Some ''Exam'', ab_content = Some ''Monday'',
       ab_targetAudience = Some \<lparr>tb_type = Some ''role'', tb_classId = None, tb_role = Some ''student''\<rparr>,
       ab_priority = None, ab_startDate = None, ab_endDate = None\<rparr>"

definition student_notice_doc :: announcement where
  "student_notice_doc = \<lparr>a_id = ''a1'', a_title = ''Exam'', a_content = ''Monday'',
       a_authorId = ''t1'',
       a_targetAudience = \<lparr>ta_type = ''role'', ta_classId = None, ta_role = Some ''student''\<rparr>,
       a_priority = ''medium'', a_startDate = 50, a_endDate = None, a_createdAt = 50,
       a_updatedAt = 50\<rparr>"

definition expired_notice :: announcement where
  "expired_notice = \<lparr>a_id = ''a0'', a_title = ''Fair'', a_content = ''Friday'',
       a_authorId = ''t1'',
       a_targetAudience = \<lparr>ta_type = ''all'', ta_classId = None, ta_role = None\<rparr>,
       a_priority = ''low'', a_startDate = 0, a_endDate = Some 10, a_createdAt = 0,
       a_updatedAt = 0\<rparr>"

definition comm_board :: comm_state where
  "comm_board = comm0\<lparr>announcements := [expired_notice]\<rparr>"

section \<open>Sample runtime: properties\<close>

text \<open>The sample \<open>trim\<close> strips a no-break space like any other white space, so a
  subject that holds nothing else is empty once trimmed; the sample \<open>toLowerCase\<close> maps
  U+00C9 to U+00E9.\<close>

lemma sample_trim_no_break_space:
  "sample_trim [CHR 0xA0, CHR ''H'', CHR ''i'', CHR 0x20] = ''Hi'' \<and>
   trim_setter sample_js [CHR 0xA0] = []"
  by (simp add: trim_setter_def sample_js_def sample_trim_def is_space_def)

lemma sample_toLowerCase_latin1:
  "sample_toLowerCase [CHR 0xC9, CHR ''L'', CHR ''a'', CHR 0xD7] = [CHR 0xE9, CHR ''l'', CHR ''a'', CHR 0xD7]"
  by code_simp

section \<open>Class service: properties\<close>

text \<open>
  No request to \<open>PUT /enrollments/:id\<close> changes a Class document: when the handler
  tests whether the enrollment is \<open>active\<close>, the enrollment already holds the requested
  status, so the branch that decrements \<open>enrollmentCount\<close> is dead.
\<close>

lemma put_enrollments_keeps_classes:
  "classes (fst (put_enrollments now user i body_status db)) = classes db"
  by (simp add: put_enrollments_def Enrollment_save_def server_error_def Let_def
      split: option.split)

text \<open>
  Once any Enrollment document links a student to a class, whatever its status,
  \<open>POST /enrollments\<close> by that student for that class is never answered 201.
\<close>

lemma post_enrollments_known_student:
  assumes "Enrollment_findOne cid (jp_id user) db = Some e" and "eb_classId body = Some cid"
  shows "res_status (snd (post_enrollments now newId user body db)) \<noteq> 201"
  using assms
  by (auto simp: post_enrollments_def enrollmentSchema_joi_def joi_string_required_def Let_def
      split: option.splits sum.splits if_splits)

lemma db_enrolled_eq:
  "db_enrolled = \<lparr>classes = [\<lparr>c_id = ''c1'', c_teacherId = ''t1'', c_capacity = 2,
                        c_enrollmentCount = 1, c_updatedAt = 10\<rparr>],
          enrollments = [\<lparr>e_id = ''e1'', e_classId = ''c1'', e_studentId = ''s1'',
                           e_enrollmentDate = 10, e_status = Some ''active'', e_updatedAt = 10\<rparr>]\<rparr>"
  by (simp add: db_enrolled_def post_enrollments_def alice_def enroll_c1_def db0_def
      enrollmentSchema_joi_def joi_string_required_def Class_findById_def Enrollment_findOne_def
      Enrollment_valid_def enrollment_status_enum_def Enrollment_insert_def Class_save_def Let_def)

lemma put_dropped_eq:
  "put_enrollments 20 alice ''e1'' (Some ''dropped'') db_enrolled =
     (\<lparr>classes = [\<lparr>c_id = ''c1'', c_teacherId = ''t1'', c_capacity = 2,
                        c_enrollmentCount = 1, c_updatedAt = 10\<rparr>],
          enrollments = [\<lparr>e_id = ''e1'', e_classId = ''c1'', e_studentId = ''s1'',
                           e_enrollmentDate = 10, e_status = Some ''dropped'', e_updatedAt = 20\<rparr>]\<rparr>,
      Response 200 ''Enrollment updated successfully''
        (Some \<lparr>e_id = ''e1'', e_classId = ''c1'', e_studentId = ''s1'',
                           e_enrollmentDate = 10, e_status = Some ''dropped'', e_updatedAt = 20\<rparr>))"
  by (simp add: db_enrolled_eq put_enrollments_def alice_def Class_findById_def
      Enrollment_findById_def Enrollment_valid_def enrollment_status_enum_def
      Enrollment_save_def Class_save_def Let_def)

lemma db_dropped_eq:
  "db_dropped = \<lparr>classes = [\<lparr>c_id = ''c1'', c_teacherId = ''t1'', c_capacity = 2,
                        c_enrollmentCount = 1, c_updatedAt = 10\<rparr>],
          enrollments = [\<lparr>e_id = ''e1'', e_classId = ''c1'', e_studentId = ''s1'',
                           e_enrollmentDate = 10, e_status = Some ''dropped'', e_updatedAt = 20\<rparr>]\<rparr>"
  by (simp add: db_dropped_def put_dropped_eq)

text \<open>
  Claim C1. After an enroll or a drop, a class's \<open>enrollmentCount\<close> should equal the
  number of its Enrollment documents with status \<open>active\<close>. The code breaks this at the
  drop: a student enrolls in an empty class (count 1, one active enrollment) and then
  drops it; the drop succeeds with 200, the enrollment is \<open>dropped\<close>, no active
  enrollment is left, and \<open>enrollmentCount\<close> is still 1.
\<close>

theorem drop_leaves_enrollmentCount_stale:
  "map_option c_enrollmentCount (Class_findById ''c1'' db_enrolled) = Some 1
   \<and> active_count ''c1'' db_enrolled = 1
   \<and> res_status (snd (put_enrollments 20 alice ''e1'' (Some ''dropped'') db_enrolled)) = 200
   \<and> map_option e_status (Enrollment_findById ''e1'' db_dropped) = Some (Some ''dropped'')
   \<and> active_count ''c1'' db_dropped = 0
   \<and> map_option c_enrollmentCount (Class_findById ''c1'' db_dropped) = Some 1"
proof -
  have "map_option c_enrollmentCount (Class_findById ''c1'' db_enrolled) = Some 1"
    by (simp add: db_enrolled_eq Class_findById_def)
  moreover have "active_count ''c1'' db_enrolled = 1"
    by (simp add: db_enrolled_eq active_count_def)
  moreover have "res_status (snd (put_enrollments 20 alice ''e1'' (Some ''dropped'') db_enrolled)) = 200"
    by (simp add: put_dropped_eq)
  moreover have "map_option e_status (Enrollment_findById ''e1'' db_dropped) = Some (Some ''dropped'')"
    by (simp add: db_dropped_eq Enrollment_findById_def)
  moreover have "active_count ''c1'' db_dropped = 0"
    by (simp add: db_dropped_eq active_count_def)
  moreover have "map_option c_enrollmentCount (Class_findById ''c1'' db_dropped) = Some 1"
    by (simp add: db_dropped_eq Class_findById_def)
  ultimately show ?thesis by blast
qed

text \<open>
  Claim C3. A student who dropped a class should be able to enroll in it again while the
  class has room. In the code the dropped Enrollment document still matches
  \<open>findOne({ classId, studentId })\<close>: the class has capacity 2 and count 1, and the
  new request is answered 400 "Student is already enrolled in this class", with the store
  unchanged.
\<close>

theorem reenroll_after_drop_rejected:
  "map_option (\<lambda>c. (c_enrollmentCount c, c_capacity c)) (Class_findById ''c1'' db_dropped)
     = Some (1, 2)
   \<and> map_option e_status (Enrollment_findOne ''c1'' ''s1'' db_dropped) = Some (Some ''dropped'')
   \<and> post_enrollments 30 ''e2'' alice enroll_c1 db_dropped =
       (db_dropped, Response 400 ''Student is already enrolled in this class'' None)"
  by (simp add: db_dropped_eq post_enrollments_def alice_def enroll_c1_def
      enrollmentSchema_joi_def joi_string_required_def Class_findById_def Enrollment_findOne_def
      Let_def)

section \<open>Content service: properties\<close>

lemma find_map_replace:
  assumes "find (\<lambda>d. k d = i) xs = Some x" and "k y = i"
  shows "find (\<lambda>d. k d = i) (map (\<lambda>d. if k d = i then y else d) xs) = Some y"
  using assms by (induction xs) (auto split: if_splits)

lemma find_Some_key: "find (\<lambda>d. k d = i) xs = Some x \<Longrightarrow> k x = i"
  by (induction xs) (auto split: if_splits)

lemma update_fields_frame:
  "ci_id (update_fields js body c) = ci_id c \<and>
   ci_version (update_fields js body c) = ci_version c \<and>
   ci_previousVersions (update_fields js body c) = ci_previousVersions c \<and>
   ci_content (update_fields js body c) =
     (case cb_content body of Undefined \<Rightarrow> ci_content c | Null \<Rightarrow> None | Value v \<Rightarrow> Some v)"
  by (simp add: update_fields_def Let_def split: option.split json_field.split)

lemma put_content_items_edit:
  assumes found: "ContentItem_findById i db = Some c"
    and truthy: "content_truthy (cb_content body)"
    and differs: "content_differs (cb_content body) (ci_content c)"
    and ok: "res_status (snd (put_content_items js now user i body db)) = 200"
  shows "\<exists>c'. ContentItem_findById i (fst (put_content_items js now user i body db)) = Some c' \<and>
           ci_version c' = ci_version c + 1 \<and>
           ci_previousVersions c' = ci_previousVersions c @
              [\<lparr>pv_content = ci_content c, pv_updatedAt = ci_updatedAt c, pv_updatedBy = ci_authorId c\<rparr>] \<and>
           ci_content c' = requested_content (now, user, body)"
proof -
  let ?u = "update_fields js body (store_previous_version body c)"
  have id: "ci_id c = i"
    using found unfolding ContentItem_findById_def by (rule find_Some_key)
  have spv: "store_previous_version body c =
      c\<lparr>ci_previousVersions := ci_previousVersions c @
                 [\<lparr>pv_content = ci_content c, pv_updatedAt = ci_updatedAt c,
                   pv_updatedBy = ci_authorId c\<rparr>],
              ci_version := ci_version c + 1\<rparr>"
    using truthy differs by (simp add: store_previous_version_def)
  from ok found have res: "put_content_items js now user i body db =
      (ContentItem_save now ?u db, Response 200 ''Content item updated successfully''
                       (Some (?u\<lparr>ci_updatedAt := now\<rparr>)))"
    by (auto simp: put_content_items_def server_error_def Let_def split: if_splits)
  have uid: "ci_id ?u = i"
    using id by (simp add: update_fields_frame spv)
  have "ContentItem_findById i (ContentItem_save now ?u db) = Some (?u\<lparr>ci_updatedAt := now\<rparr>)"
    using found uid unfolding ContentItem_findById_def ContentItem_save_def
    by (simp add: find_map_replace)
  moreover obtain s where "cb_content body = Value s"
    using truthy by (auto simp: content_truthy_def split: json_field.splits)
  ultimately show ?thesis
    by (simp add: res update_fields_frame spv requested_content_def)
qed

text \<open>
  Claim C2, as amended. An update by the author or an admin that is answered 200 and whose
  \<open>content\<close> is a non-empty string different from the content the item holds appends
  exactly one entry, holding the previous content, to \<open>previousVersions\<close> and adds 1 to
  \<open>version\<close>. Over a run of such updates the item found afterwards has its old history
  followed by one entry per update, the entries holding in order the content before the
  first update and the content each update but the last asked for, and its version has
  grown by the number of updates; for an item fresh from creation (version 1, no history)
  the \<open>n\<close>-th edit leaves \<open>n\<close> entries and version \<open>1 + n\<close>.
\<close>

theorem content_edits_extend_history:
  assumes "ContentItem_findById i db = Some c" and "content_edits js i es db"
  shows "\<exists>c' added. ContentItem_findById i (put_content_items_run js i es db) = Some c' \<and>
           ci_version c' = ci_version c + int (length es) \<and>
           ci_previousVersions c' = ci_previousVersions c @ added \<and>
           length added = length es \<and>
           map pv_content added = butlast (ci_content c # map requested_content es)"
  using assms
proof (induction es arbitrary: db c)
  case Nil
  then show ?case by simp
next
  case (Cons e es)
  obtain now user body where e: "e = (now, user, body)"
    by (cases e) auto
  let ?db1 = "fst (put_content_items js now user i body db)"
  from Cons.prems have truthy: "content_truthy (cb_content body)"
    and differs: "content_differs (cb_content body) (ci_content c)"
    and ok: "res_status (snd (put_content_items js now user i body db)) = 200"
    and rest: "content_edits js i es ?db1"
    by (simp_all add: e)
  from put_content_items_edit [OF Cons.prems(1) truthy differs ok]
  obtain c1 where c1: "ContentItem_findById i ?db1 = Some c1"
    and v1: "ci_version c1 = ci_version c + 1"
    and p1: "ci_previousVersions c1 = ci_previousVersions c @
              [\<lparr>pv_content = ci_content c, pv_updatedAt = ci_updatedAt c, pv_updatedBy = ci_authorId c\<rparr>]"
    and k1: "ci_content c1 = requested_content (now, user, body)"
    by blast
  from Cons.IH [OF c1 rest]
  obtain c' added where c': "ContentItem_findById i (put_content_items_run js i es ?db1) = Some c'"
    and v': "ci_version c' = ci_version c1 + int (length es)"
    and p': "ci_previousVersions c' = ci_previousVersions c1 @ added"
    and l': "length added = length es"
    and m': "map pv_content added = butlast (ci_content c1 # map requested_content es)"
    by blast
  let ?added = "\<lparr>pv_content = ci_content c, pv_updatedAt = ci_updatedAt c, pv_updatedBy = ci_authorId c\<rparr> # added"
  have "ContentItem_findById i (put_content_items_run js i (e # es) db) = Some c'"
    using c' by (simp add: e)
  moreover have "ci_version c' = ci_version c + int (length (e # es))"
    using v' v1 by simp
  moreover have "ci_previousVersions c' = ci_previousVersions c @ ?added"
    using p' p1 by simp
  moreover have "length ?added = length (e # es)"
    using l' by simp
  moreover have "map pv_content ?added = butlast (ci_content c # map requested_content (e # es))"
    using m' k1 by (simp add: e)
  ultimately show ?case by blast
qed

lemma lesson_found: "ContentItem_findById ''i1'' [lesson] = Some lesson"
  by (simp add: ContentItem_findById_def lesson_def)

lemma two_edits_ok: "content_edits sample_js ''i1'' two_edits [lesson]"
  by (simp add: two_edits_def ContentItem_findById_def lesson_def teacher1_def content_only_def
      content_truthy_def content_differs_def put_content_items_def update_fields_def
      store_previous_version_def ContentItem_valid_def content_type_enum_def
      content_status_enum_def ContentItem_save_def Let_def)

theorem content_edits_extend_history_witness:
  "ContentItem_findById ''i1'' [lesson] = Some lesson \<and> content_edits sample_js ''i1'' two_edits [lesson] \<and>
   (\<exists>c' added. ContentItem_findById ''i1'' (put_content_items_run sample_js ''i1'' two_edits [lesson]) = Some c' \<and>
      ci_version c' = 3 \<and> ci_previousVersions c' = added \<and> length added = 2 \<and>
      map pv_content added = [Some ''v1'', Some ''v2''])"
proof -
  from content_edits_extend_history [OF lesson_found two_edits_ok]
  obtain c' added
    where f: "ContentItem_findById ''i1'' (put_content_items_run sample_js ''i1'' two_edits [lesson]) = Some c'"
      and v: "ci_version c' = ci_version lesson + int (length two_edits)"
      and p: "ci_previousVersions c' = ci_previousVersions lesson @ added"
      and l: "length added = length two_edits"
      and m: "map pv_content added = butlast (ci_content lesson # map requested_content two_edits)"
    by blast
  have v3: "ci_version c' = 3"
    using v by (simp add: lesson_def two_edits_def)
  have pa: "ci_previousVersions c' = added"
    using p by (simp add: lesson_def)
  have l2: "length added = 2"
    using l by (simp add: two_edits_def)
  have m2: "map pv_content added = [Some ''v1'', Some ''v2'']"
    using m by (simp add: lesson_def two_edits_def requested_content_def content_only_def)
  have "\<exists>c' added. ContentItem_findById ''i1'' (put_content_items_run sample_js ''i1'' two_edits [lesson]) = Some c' \<and>
      ci_version c' = 3 \<and> ci_previousVersions c' = added \<and> length added = 2 \<and>
      map pv_content added = [Some ''v1'', Some ''v2'']"
    by (rule exI [of _ c'], rule exI [of _ added]) (simp only: f v3 pa l2 m2 simp_thms)
  then show ?thesis
    by (simp only: lesson_found two_edits_ok simp_thms)
qed

text \<open>
  Claim C2, as stated, fails where the payload's \<open>content\<close> equals the content the item
  already holds: the author's update of the lesson with \<open>content = v1\<close> is answered 200,
  and the item keeps version 1 and its empty history.
\<close>

theorem same_content_keeps_version:
  "ContentItem_findById ''i1'' [lesson] = Some lesson \<and>
   cb_content (content_only ''v1'') = Value ''v1'' \<and>
   res_status (snd (put_content_items sample_js 10 teacher1 ''i1'' (content_only ''v1'') [lesson])) = 200 \<and>
   map_option (\<lambda>c. (ci_version c, ci_previousVersions c))
     (ContentItem_findById ''i1'' (fst (put_content_items sample_js 10 teacher1 ''i1'' (content_only ''v1'') [lesson])))
     = Some (ci_version lesson, ci_previousVersions lesson)"
  by (simp add: ContentItem_findById_def lesson_def teacher1_def content_only_def
      content_truthy_def content_differs_def put_content_items_def update_fields_def
      store_previous_version_def ContentItem_valid_def content_type_enum_def
      content_status_enum_def ContentItem_save_def Let_def)

section \<open>User service: properties\<close>

lemma find_append_new:
  "find P xs = None \<Longrightarrow> P y \<Longrightarrow> find P (xs @ [y]) = Some y"
  by (induction xs) (auto split: if_splits)

lemma find_disj_None:
  "find (\<lambda>x. P x \<or> Q x) xs = None \<Longrightarrow> find P xs = None"
  by (induction xs) (auto split: if_splits)

lemma joi_string_required_Inr: "joi_string_required k v = Inr s \<Longrightarrow> v = Some s \<and> s \<noteq> []"
  by (auto simp: joi_string_required_def split: option.splits if_splits)

lemma joi_string_min_Inr: "joi_string_min n k v = Inr s \<Longrightarrow> v = Some s \<and> s \<noteq> [] \<and> n \<le> length s"
  by (auto simp: joi_string_min_def split: sum.splits if_splits dest: joi_string_required_Inr)

lemma joi_string_email_Inr: "joi_string_email ext k v = Inr s \<Longrightarrow> v = Some s \<and> s \<noteq> [] \<and> joi_email ext s"
  by (auto simp: joi_string_email_def split: sum.splits if_splits dest: joi_string_required_Inr)

lemma joi_role_Inr: "joi_role k v = Inr s \<Longrightarrow> v = Some s"
  by (auto simp: joi_role_def split: option.splits if_splits)

lemma registerSchema_Inr:
  assumes "registerSchema ext body = Inr r"
  shows "rb_email body = Some (rg_email r) \<and> joi_email ext (rg_email r) \<and> rg_email r \<noteq> [] \<and>
         rb_password body = Some (rg_password r) \<and> rg_password r \<noteq> [] \<and>
         rb_role body = Some (rg_role r) \<and> rb_username body = Some (rg_username r)"
  using assms
  by (auto simp: registerSchema_def split: sum.splits
      dest!: joi_string_min_Inr joi_string_email_Inr joi_role_Inr)

lemma post_auth_register_201:
  assumes "res_status (snd (post_auth_register js ext now newId salt body db)) = 201"
  shows "\<exists>r u. registerSchema ext body = Inr r \<and>
           User_findOne_email_or_username js (rg_email r) (rg_username r) db = None \<and>
           fst (post_auth_register js ext now newId salt body db) = db @ [u] \<and>
           u_email u = email_setters js (rg_email r) \<and>
           u_passwordHash u = bcrypt_hash ext (rg_password r) salt \<and>
           u_role u = rg_role r \<and> u_id u = newId"
  using assms
  by (auto simp: post_auth_register_def server_error_def Let_def split: sum.splits option.splits if_splits)

text \<open>
  Claim C8. When bcrypt's \<open>compare\<close> accepts a password against every hash of it, a
  registration answered 201 can be followed by a login with the same email and password:
  the login is answered 200 with a token whose decoded role is the role given at
  registration, whose id is the new user's, and which verifies under the service's secret.
\<close>

theorem register_then_login:
  assumes bcrypt: "\<And>p s. bcrypt_compare ext p (bcrypt_hash ext p s)"
    and accepted: "res_status (snd (post_auth_register js ext now newId salt body db)) = 201"
  shows "\<exists>reply. snd (post_auth_login js ext now' \<lparr>lb_email = rb_email body, lb_password = rb_password body\<rparr>
                       (fst (post_auth_register js ext now newId salt body db)))
                  = Response 200 [] (Some reply) \<and>
                Some (jp_role (jwt_decode (lr_token reply))) = rb_role body \<and>
                jp_id (jwt_decode (lr_token reply)) = newId \<and>
                jwt_verify (lr_token reply) (jwt_secret ext) now' = Some (jwt_decode (lr_token reply))"
proof -
  from post_auth_register_201 [OF accepted]
  obtain r u where schema: "registerSchema ext body = Inr r"
    and fresh: "User_findOne_email_or_username js (rg_email r) (rg_username r) db = None"
    and db': "fst (post_auth_register js ext now newId salt body db) = db @ [u]"
    and email: "u_email u = email_setters js (rg_email r)"
    and hash: "u_passwordHash u = bcrypt_hash ext (rg_password r) salt"
    and role: "u_role u = rg_role r" and uid: "u_id u = newId"
    by blast
  note body = registerSchema_Inr [OF schema]
  have login_schema: "loginSchema ext \<lparr>lb_email = rb_email body, lb_password = rb_password body\<rparr>
      = Inr (rg_email r, rg_password r)"
    using body by (simp add: loginSchema_def joi_string_email_def joi_string_required_def)
  have "find (\<lambda>u. u_email u = email_setters js (rg_email r)) db = None"
    using fresh unfolding User_findOne_email_or_username_def by (rule find_disj_None)
  then have found: "User_findOne_email js (rg_email r) (db @ [u]) = Some u"
    unfolding User_findOne_email_def using email by (simp add: find_append_new)
  have cmp: "bcrypt_compare ext (rg_password r) (u_passwordHash u)"
    using bcrypt by (simp add: hash)
  have res: "snd (post_auth_login js ext now' \<lparr>lb_email = rb_email body, lb_password = rb_password body\<rparr> (db @ [u]))
      = Response 200 []
          (Some \<lparr>lr_token = jwt_sign_1d \<lparr>jp_id = newId, jp_email = u_email u, jp_role = rg_role r\<rparr>
                                (jwt_secret ext) now',
                  lr_user = summary_of (u\<lparr>u_lastLogin := Some now'\<rparr>)\<rparr>)"
    by (simp add: post_auth_login_def login_schema found cmp Let_def role uid)
  have "Some (rg_role r) = rb_role body"
    using body by simp
  then show ?thesis
    by (simp add: db' res jwt_decode_def jwt_sign_1d_def jwt_verify_def)
qed

lemma toy_bcrypt: "bcrypt_compare toy_externals p (bcrypt_hash toy_externals p s)"
  by (simp add: toy_externals_def)

lemma alice_registration_accepted:
  "res_status (snd (post_auth_register sample_js toy_externals 1 ''u1'' ''salt'' alice_registration [])) = 201"
  by (simp add: post_auth_register_def registerSchema_def joi_string_min_def joi_string_email_def
      joi_string_required_def joi_role_def role_enum_def toy_externals_def alice_registration_def
      User_findOne_email_or_username_def User_valid_def user_status_enum_def trim_setter_def sample_js_def sample_trim_def is_space_def
      email_setters_def lowercase_setter_def sample_toLowerCase_def Let_def)

text \<open>The round trip of a student registering with a mixed-case email, under a toy
  bcrypt that satisfies the hypothesis.\<close>

theorem register_then_login_witness:
  "(\<forall>p s. bcrypt_compare toy_externals p (bcrypt_hash toy_externals p s)) \<and>
   res_status (snd (post_auth_register sample_js toy_externals 1 ''u1'' ''salt'' alice_registration [])) = 201 \<and>
   (\<exists>reply. snd (post_auth_login sample_js toy_externals 2
                    \<lparr>lb_email = rb_email alice_registration, lb_password = rb_password alice_registration\<rparr>
                    (fst (post_auth_register sample_js toy_externals 1 ''u1'' ''salt'' alice_registration [])))
                = Response 200 [] (Some reply) \<and>
              Some (jp_role (jwt_decode (lr_token reply))) = rb_role alice_registration \<and>
              jp_id (jwt_decode (lr_token reply)) = ''u1'' \<and>
              jwt_verify (lr_token reply) (jwt_secret toy_externals) 2 = Some (jwt_decode (lr_token reply)))"
proof (intro conjI allI)
  show "bcrypt_compare toy_externals p (bcrypt_hash toy_externals p s)" for p s
    by (rule toy_bcrypt)
  show "res_status (snd (post_auth_register sample_js toy_externals 1 ''u1'' ''salt'' alice_registration [])) = 201"
    by (rule alice_registration_accepted)
  show "\<exists>reply. snd (post_auth_login sample_js toy_externals 2
                    \<lparr>lb_email = rb_email alice_registration, lb_password = rb_password alice_registration\<rparr>
                    (fst (post_auth_register sample_js toy_externals 1 ''u1'' ''salt'' alice_registration [])))
                = Response 200 [] (Some reply) \<and>
              Some (jp_role (jwt_decode (lr_token reply))) = rb_role alice_registration \<and>
              jp_id (jwt_decode (lr_token reply)) = ''u1'' \<and>
              jwt_verify (lr_token reply) (jwt_secret toy_externals) 2 = Some (jwt_decode (lr_token reply))"
    by (rule register_then_login [OF toy_bcrypt alice_registration_accepted])
qed

lemma update_user_fields_frame:
  "update_user_fields js body u =
     u\<lparr>u_firstName := u_firstName (update_user_fields js body u),
       u_lastName := u_lastName (update_user_fields js body u),
       u_avatar := u_avatar (update_user_fields js body u),
       u_contactInfo := u_contactInfo (update_user_fields js body u),
       u_preferences := u_preferences (update_user_fields js body u)\<rparr>"
  by (simp add: update_user_fields_def Let_def split: option.split)

text \<open>
  Claim C10, as amended. When a caller who is not an admin updates their own record and
  the request is answered 200, the stored record is the old one with at most
  \<open>firstName\<close>, \<open>lastName\<close>, \<open>avatar\<close>, \<open>contactInfo\<close> and \<open>preferences\<close>
  replaced and \<open>updatedAt\<close> set to the time of the save; every other record is
  untouched. In particular \<open>role\<close>, \<open>status\<close>, \<open>username\<close>, \<open>email\<close> and
  \<open>passwordHash\<close> are unchanged.
\<close>

theorem self_update_frame:
  assumes caller: "User_findById (jp_id payload) db = Some caller"
    and not_admin: "u_role caller \<noteq> ''admin''"
    and own: "u_id caller = i"
    and ok: "res_status (snd (put_users js now payload i body db)) = 200"
  shows "\<exists>u'. fst (put_users js now payload i body db) = map (\<lambda>d. if u_id d = i then u' else d) db \<and>
           u' = caller\<lparr>u_firstName := u_firstName u', u_lastName := u_lastName u',
                        u_avatar := u_avatar u', u_contactInfo := u_contactInfo u',
                        u_preferences := u_preferences u', u_updatedAt := now\<rparr> \<and>
           u_role u' = u_role caller \<and> u_status u' = u_status caller \<and>
           u_username u' = u_username caller \<and> u_email u' = u_email caller \<and>
           u_passwordHash u' = u_passwordHash caller"
proof -
  let ?u = "update_user_fields js body caller"
  have "find (\<lambda>u. u_id u = jp_id payload) db = Some caller"
    using caller by (simp add: User_findById_def)
  then have "u_id caller = jp_id payload"
    by (induction db) (auto split: if_splits)
  then have target: "User_findById i db = Some caller"
    using caller own by simp
  have uid: "u_id ?u = i"
    using own by (subst update_user_fields_frame) simp
  from ok have res: "fst (put_users js now payload i body db) = User_save now ?u db"
    using caller not_admin own target
    by (auto simp: put_users_def server_error_def Let_def split: if_splits)
  have "User_save now ?u db = map (\<lambda>d. if u_id d = i then ?u\<lparr>u_updatedAt := now\<rparr> else d) db"
    by (simp add: User_save_def uid)
  moreover have "?u\<lparr>u_updatedAt := now\<rparr> =
      caller\<lparr>u_firstName := u_firstName ?u, u_lastName := u_lastName ?u,
             u_avatar := u_avatar ?u, u_contactInfo := u_contactInfo ?u,
             u_preferences := u_preferences ?u, u_updatedAt := now\<rparr>"
    by (subst update_user_fields_frame) simp
  ultimately show ?thesis
    using res by (intro exI [of _ "?u\<lparr>u_updatedAt := now\<rparr>"]) simp
qed

lemma bob_found: "User_findById (jp_id bob_token) [bob] = Some bob"
  by (simp add: User_findById_def bob_def bob_token_def)

lemma bob_not_admin: "u_role bob \<noteq> ''admin''"
  by (simp add: bob_def)

lemma bob_own: "u_id bob = ''u2''"
  by (simp add: bob_def)

lemma bob_put_eq:
  "put_users sample_js 99 bob_token ''u2'' rename_bobby [bob] =
     ([bob\<lparr>u_firstName := ''Bobby'', u_updatedAt := 99\<rparr>],
      Response 200 ''User updated successfully''
        (Some \<lparr>ur_summary = summary_of (bob\<lparr>u_firstName := ''Bobby''\<rparr>), ur_status = ''active''\<rparr>))"
  by (simp add: put_users_def User_findById_def bob_def bob_token_def rename_bobby_def
      update_user_fields_def User_valid_def role_enum_def user_status_enum_def User_save_def
      trim_setter_def sample_js_def sample_trim_def is_space_def Let_def)

lemma bob_put_ok: "res_status (snd (put_users sample_js 99 bob_token ''u2'' rename_bobby [bob])) = 200"
  by (simp add: bob_put_eq)

text \<open>Student Bob renames himself and asks for the admin role in the same request.\<close>

theorem self_update_frame_witness:
  "User_findById (jp_id bob_token) [bob] = Some bob \<and> u_role bob \<noteq> ''admin'' \<and> u_id bob = ''u2'' \<and>
   res_status (snd (put_users sample_js 99 bob_token ''u2'' rename_bobby [bob])) = 200 \<and>
   (\<exists>u'. fst (put_users sample_js 99 bob_token ''u2'' rename_bobby [bob])
             = map (\<lambda>d. if u_id d = ''u2'' then u' else d) [bob] \<and>
           u' = bob\<lparr>u_firstName := u_firstName u', u_lastName := u_lastName u',
                     u_avatar := u_avatar u', u_contactInfo := u_contactInfo u',
                     u_preferences := u_preferences u', u_updatedAt := 99\<rparr> \<and>
           u_role u' = u_role bob \<and> u_status u' = u_status bob \<and>
           u_username u' = u_username bob \<and> u_email u' = u_email bob \<and>
           u_passwordHash u' = u_passwordHash bob)"
proof (intro conjI)
  show "User_findById (jp_id bob_token) [bob] = Some bob" by (rule bob_found)
  show "u_role bob \<noteq> ''admin''" by (rule bob_not_admin)
  show "u_id bob = ''u2''" by (rule bob_own)
  show "res_status (snd (put_users sample_js 99 bob_token ''u2'' rename_bobby [bob])) = 200" by (rule bob_put_ok)
  show "\<exists>u'. fst (put_users sample_js 99 bob_token ''u2'' rename_bobby [bob])
             = map (\<lambda>d. if u_id d = ''u2'' then u' else d) [bob] \<and>
           u' = bob\<lparr>u_firstName := u_firstName u', u_lastName := u_lastName u',
                     u_avatar := u_avatar u', u_contactInfo := u_contactInfo u',
                     u_preferences := u_preferences u', u_updatedAt := 99\<rparr> \<and>
           u_role u' = u_role bob \<and> u_status u' = u_status bob \<and>
           u_username u' = u_username bob \<and> u_email u' = u_email bob \<and>
           u_passwordHash u' = u_passwordHash bob"
    by (rule self_update_frame [OF bob_found bob_not_admin bob_own bob_put_ok])
qed

text \<open>
  Claim C10, as stated, lets only five fields change. The pre-save hook also writes
  \<open>updatedAt\<close>: Bob's record had \<open>updatedAt = 7\<close> and has 99 after his own update at
  time 99 (his role is still \<open>student\<close>).
\<close>

theorem self_update_sets_updatedAt:
  "User_findById (jp_id bob_token) [bob] = Some bob \<and> u_role bob \<noteq> ''admin'' \<and>
   res_status (snd (put_users sample_js 99 bob_token ''u2'' rename_bobby [bob])) = 200 \<and>
   map u_updatedAt [bob] = [7] \<and>
   map u_updatedAt (fst (put_users sample_js 99 bob_token ''u2'' rename_bobby [bob])) = [99] \<and>
   map u_role (fst (put_users sample_js 99 bob_token ''u2'' rename_bobby [bob])) = [''student'']"
proof (intro conjI)
  show "User_findById (jp_id bob_token) [bob] = Some bob" by (rule bob_found)
  show "u_role bob \<noteq> ''admin''" by (rule bob_not_admin)
  show "res_status (snd (put_users sample_js 99 bob_token ''u2'' rename_bobby [bob])) = 200" by (rule bob_put_ok)
  show "map u_updatedAt [bob] = [7]" by (simp add: bob_def)
  show "map u_updatedAt (fst (put_users sample_js 99 bob_token ''u2'' rename_bobby [bob])) = [99]"
    by (simp add: bob_put_eq)
  show "map u_role (fst (put_users sample_js 99 bob_token ''u2'' rename_bobby [bob])) = [''student'']"
    unfolding bob_put_eq by (simp add: bob_def)
qed

section \<open>Communication service: properties\<close>

lemma comm_online_eq:
  "comm_online = \<lparr>messages = [], announcements = [], notifications = [],
      sockets = [\<lparr>s_id = ''k1'', s_userId = Some ''s1'', s_role = Some ''student'',
                   s_rooms = [''k1'', ''user:s1'', ''role:student'']\<rparr>,
                 \<lparr>s_id = ''k2'', s_userId = None, s_role = None, s_rooms = [''k2'']\<rparr>]\<rparr>"
  by (simp add: comm_online_def comm0_def on_connection_def on_authenticate_def alice_jwt_def
      jwt_sign_1d_def jwt_verify_def alice_def socket_emit_def)

text \<open>
  Claim C6. A \<open>private-message\<close> event on a connected socket that has not authenticated
  (no user is bound to it) makes the server emit one \<open>error\<close> event, "Not authenticated",
  to that socket and to nobody else. The state is returned as it was: no Message and no
  Notification is stored, and the socket is still among the connected sockets.
\<close>

theorem unauthenticated_private_message:
  assumes "find (\<lambda>s. s_id s = sid) (sockets st) = Some sock" and "s_userId sock = None"
  shows "on_private_message js now mid nid sid data st = (st, [(sid, Error ''Not authenticated'')], None)"
  using assms by (simp add: on_private_message_def socket_emit_def)

lemma on_private_message_no_ack: "snd (snd (on_private_message js now mid nid sid data st)) = None"
  by (simp add: on_private_message_def Let_def split: option.split)

lemma notifications_on_connection: "notifications (on_connection sid st) = notifications st"
  by (simp add: on_connection_def)

lemma notifications_on_authenticate:
  "notifications (fst (on_authenticate secret now sid token st)) = notifications st"
  by (simp add: on_authenticate_def split: option.split)

text \<open>
  Claim C7, as amended. An authenticated socket sends a private message that carries a
  non-empty recipient, a subject that is not empty once the schema has trimmed it and a
  non-empty content, the id generated for the Message is not empty, and no connected
  socket is in the recipient's room. Then the Message and a Notification for the
  recipient, unread and pointing at the message, are appended to the store, the only event
  emitted is the acknowledgement to the sender, and \<open>GET /notifications\<close> by the
  recipient returns that notification with \<open>read = false\<close>, both at once and after the
  recipient has connected and authenticated a socket.
\<close>

theorem offline_private_message_persists:
  assumes sock: "find (\<lambda>s. s_id s = sid) (sockets st) = Some sock"
    and auth: "s_userId sock = Some sender" "sender \<noteq> []"
    and payload: "pm_recipientId d = Some rid" "rid \<noteq> []" "pm_subject d = Some subj"
      "trim_setter js subj \<noteq> []" "pm_content d = Some text" "text \<noteq> []"
    and mid: "mid \<noteq> []"
    and offline: "\<forall>s \<in> set (sockets st). (''user:'' @ rid) \<notin> set (s_rooms s)"
    and recipient: "jp_id ruser = rid"
  shows "\<exists>m n ns ns'.
      on_private_message js now mid nid sid (Some d) st =
        (st\<lparr>messages := messages st @ [m], notifications := notifications st @ [n]\<rparr>,
         [(sid, Message_sent True mid)], None) \<and>
      m_id m = mid \<and> m_senderId m = sender \<and> m_recipientId m = rid \<and> m_content m = text \<and>
      n_id n = nid \<and> n_userId n = rid \<and> n_relatedTo n = \<lparr>rt_type = ''message'', rt_id = mid\<rparr> \<and>
      n_read n = False \<and>
      get_notifications ruser (fst (on_private_message js now mid nid sid (Some d) st))
        = Response 200 [] (Some ns) \<and> n \<in> set ns \<and>
      get_notifications ruser
        (fst (on_authenticate secret now' sid' token
           (on_connection sid' (fst (on_private_message js now mid nid sid (Some d) st)))))
        = Response 200 [] (Some ns') \<and> n \<in> set ns'"
proof -
  let ?m = "\<lparr>m_id = mid, m_senderId = sender, m_recipientId = rid,
              m_subject = trim_setter js subj, m_content = text,
              m_read = False, m_readAt = None, m_createdAt = now\<rparr>"
  let ?n = "\<lparr>n_id = nid, n_userId = rid, n_title = ''New Message'',
              n_message = ''You have a new message from '' @ sender @ '': '' @ subj,
              n_type = ''info'', n_relatedTo = \<lparr>rt_type = ''message'', rt_id = mid\<rparr>,
              n_read = False, n_readAt = None, n_createdAt = now\<rparr>"
  let ?st' = "st\<lparr>messages := messages st @ [?m], notifications := notifications st @ [?n]\<rparr>"
  have nobody: "filter (\<lambda>s. (''user:'' @ rid) \<in> set (s_rooms s)) (sockets st) = []"
    using offline by (simp add: filter_empty_conv)
  have res: "on_private_message js now mid nid sid (Some d) st = (?st', [(sid, Message_sent True mid)], None)"
    using sock auth payload mid nobody
    by (simp add: on_private_message_def Let_def or_empty_def Message_valid_def
        Notification_valid_def io_to_def socket_emit_def)
  let ?ns = "rev (sort_key n_createdAt (filter (\<lambda>n. n_userId n = jp_id ruser) (notifications ?st')))"
  have g1: "get_notifications ruser ?st' = Response 200 [] (Some ?ns)"
    by (simp add: get_notifications_def)
  have g2: "get_notifications ruser
        (fst (on_authenticate secret now' sid' token (on_connection sid' ?st')))
        = Response 200 [] (Some ?ns)"
    by (simp add: get_notifications_def notifications_on_authenticate notifications_on_connection)
  have mem: "?n \<in> set ?ns"
    using recipient by simp
  show ?thesis
    apply (rule exI [of _ ?m], rule exI [of _ ?n], rule exI [of _ ?ns], rule exI [of _ ?ns])
    apply (simp only: res fst_conv g1 g2 mem)
    apply simp
    done
qed

lemma k1_found:
  "find (\<lambda>s. s_id s = ''k1'') (sockets comm_online)
     = Some \<lparr>s_id = ''k1'', s_userId = Some ''s1'', s_role = Some ''student'',
              s_rooms = [''k1'', ''user:s1'', ''role:student'']\<rparr>"
  by (simp add: comm_online_eq)

lemma k2_found:
  "find (\<lambda>s. s_id s = ''k2'') (sockets comm_online)
     = Some \<lparr>s_id = ''k2'', s_userId = None, s_role = None, s_rooms = [''k2'']\<rparr>"
  by (simp add: comm_online_eq)

lemma t1_offline: "\<forall>s \<in> set (sockets comm_online). (''user:'' @ ''t1'') \<notin> set (s_rooms s)"
  by (simp add: comm_online_eq)

text \<open>
  Socket \<open>k2\<close> has connected and never authenticated.
\<close>

theorem unauthenticated_private_message_witness:
  "find (\<lambda>s. s_id s = ''k2'') (sockets comm_online)
     = Some \<lparr>s_id = ''k2'', s_userId = None, s_role = None, s_rooms = [''k2'']\<rparr> \<and>
   s_userId \<lparr>s_id = ''k2'', s_userId = None, s_role = None, s_rooms = [''k2'']\<rparr> = None \<and>
   on_private_message sample_js 2000 ''m1'' ''n1'' ''k2'' (Some hello) comm_online
     = (comm_online, [(''k2'', Error ''Not authenticated'')], None)"
proof (intro conjI)
  show f: "find (\<lambda>s. s_id s = ''k2'') (sockets comm_online)
     = Some \<lparr>s_id = ''k2'', s_userId = None, s_role = None, s_rooms = [''k2'']\<rparr>"
    by (rule k2_found)
  show n: "s_userId \<lparr>s_id = ''k2'', s_userId = None, s_role = None, s_rooms = [''k2'']\<rparr> = None"
    by simp
  show "on_private_message sample_js 2000 ''m1'' ''n1'' ''k2'' (Some hello) comm_online
     = (comm_online, [(''k2'', Error ''Not authenticated'')], None)"
    by (rule unauthenticated_private_message [OF f n])
qed

text \<open>
  Student \<open>s1\<close> on socket \<open>k1\<close> writes to teacher \<open>t1\<close>, who has no socket.
\<close>

theorem offline_private_message_persists_witness:
  "\<exists>m n ns ns'.
      on_private_message sample_js 2000 ''m1'' ''n1'' ''k1'' (Some hello) comm_online =
        (comm_online\<lparr>messages := messages comm_online @ [m],
                     notifications := notifications comm_online @ [n]\<rparr>,
         [(''k1'', Message_sent True ''m1'')], None) \<and>
      m_id m = ''m1'' \<and> m_senderId m = ''s1'' \<and> m_recipientId m = ''t1'' \<and> m_content m = ''Hello'' \<and>
      n_id n = ''n1'' \<and> n_userId n = ''t1'' \<and>
      n_relatedTo n = \<lparr>rt_type = ''message'', rt_id = ''m1''\<rparr> \<and> n_read n = False \<and>
      get_notifications teacher1 (fst (on_private_message sample_js 2000 ''m1'' ''n1'' ''k1'' (Some hello) comm_online))
        = Response 200 [] (Some ns) \<and> n \<in> set ns \<and>
      get_notifications teacher1
        (fst (on_authenticate ''your-secret-key'' 3000 ''k3'' teacher1_jwt
           (on_connection ''k3'' (fst (on_private_message sample_js 2000 ''m1'' ''n1'' ''k1'' (Some hello) comm_online)))))
        = Response 200 [] (Some ns') \<and> n \<in> set ns'"
proof -
  have a: "s_userId \<lparr>s_id = ''k1'', s_userId = Some ''s1'', s_role = Some ''student'',
              s_rooms = [''k1'', ''user:s1'', ''role:student'']\<rparr> = Some ''s1''"
    and b: "''s1'' \<noteq> []" and c: "pm_recipientId hello = Some ''t1''" and d: "''t1'' \<noteq> []"
    and e: "pm_subject hello = Some ''Hi''" and f: "trim_setter sample_js ''Hi'' \<noteq> []"
    and g: "pm_content hello = Some ''Hello''" and h: "''Hello'' \<noteq> []"
    and i: "''m1'' \<noteq> []" and j: "jp_id teacher1 = ''t1''"
    by (simp_all add: hello_def teacher1_def trim_setter_def sample_js_def sample_trim_def is_space_def)
  show ?thesis
    by (rule offline_private_message_persists [OF k1_found a b c d e f g h i t1_offline j])
qed

text \<open>
  Claim C7, as stated, speaks of every private message. The handler validates nothing
  itself; the Message schema requires \<open>recipientId\<close>, \<open>subject\<close> and \<open>content\<close>.
  Student \<open>s1\<close>, authenticated on \<open>k1\<close>, sends teacher \<open>t1\<close> (no socket in the room
  \<open>user:t1\<close>) a message without a subject: the save is rejected, the sender gets the
  error "Failed to send message", the store is unchanged, and the teacher's notification
  list is empty.
\<close>

theorem private_message_without_subject_not_stored:
  "find (\<lambda>s. s_id s = ''k1'') (sockets comm_online)
     = Some \<lparr>s_id = ''k1'', s_userId = Some ''s1'', s_role = Some ''student'',
              s_rooms = [''k1'', ''user:s1'', ''role:student'']\<rparr> \<and>
   filter (\<lambda>s. (''user:'' @ ''t1'') \<in> set (s_rooms s)) (sockets comm_online) = [] \<and>
   on_private_message sample_js 2000 ''m1'' ''n1'' ''k1'' (Some no_subject) comm_online
     = (comm_online, [(''k1'', Error ''Failed to send message'')], None) \<and>
   messages comm_online = [] \<and> notifications comm_online = [] \<and>
   get_notifications teacher1 comm_online = Response 200 [] (Some [])"
proof (intro conjI)
  show "find (\<lambda>s. s_id s = ''k1'') (sockets comm_online)
     = Some \<lparr>s_id = ''k1'', s_userId = Some ''s1'', s_role = Some ''student'',
              s_rooms = [''k1'', ''user:s1'', ''role:student'']\<rparr>"
    by (rule k1_found)
  show "filter (\<lambda>s. (''user:'' @ ''t1'') \<in> set (s_rooms s)) (sockets comm_online) = []"
    by (simp add: comm_online_eq)
  show "on_private_message sample_js 2000 ''m1'' ''n1'' ''k1'' (Some no_subject) comm_online
     = (comm_online, [(''k1'', Error ''Failed to send message'')], None)"
    by (simp add: on_private_message_def k1_found no_subject_def or_empty_def trim_setter_def
        Message_valid_def socket_emit_def Let_def)
  show "messages comm_online = []"
    by (simp add: comm_online_eq)
  show "notifications comm_online = []"
    by (simp add: comm_online_eq)
  show "get_notifications teacher1 comm_online = Response 200 [] (Some [])"
    by (simp add: get_notifications_def comm_online_eq)
qed

lemma joi_targetAudience_Inr:
  assumes "joi_targetAudience v = Inr t"
  shows "ta_type t \<in> set [''all'', ''class'', ''role''] \<and> (ta_type t = ''role'' \<longrightarrow> ta_role t \<noteq> None)"
  using assms
  by (auto simp: joi_targetAudience_def joi_valid_def joi_string_optional_def
      split: option.splits sum.splits if_splits)

lemma announcementSchema_joi_Inr:
  assumes "announcementSchema_joi body = Inr input"
  shows "ta_type (ai_targetAudience input) \<in> set [''all'', ''class'', ''role''] \<and>
         (ta_type (ai_targetAudience input) = ''role'' \<longrightarrow> ta_role (ai_targetAudience input) \<noteq> None)"
  using assms
  by (auto simp: announcementSchema_joi_def split: sum.splits dest!: joi_targetAudience_Inr)

text \<open>
  Claim C5. When \<open>POST /announcements\<close> answers 201 the announcement has been appended
  to the store, its audience type is \<open>all\<close>, \<open>role\<close> or \<open>class\<close>, and the
  \<open>new-announcement\<close> event goes to every connected socket for \<open>all\<close>, to exactly
  the sockets in the room of the announcement's role for \<open>role\<close>, and to every
  connected socket for \<open>class\<close>.
\<close>

theorem announcement_broadcast:
  assumes created: "res_status (snd (snd (post_announcements js now newId user body st))) = 201"
  shows "\<exists>a. snd (snd (post_announcements js now newId user body st))
                = Response 201 ''Announcement created successfully'' (Some a) \<and>
              announcements (fst (post_announcements js now newId user body st)) = announcements st @ [a] \<and>
              sockets (fst (post_announcements js now newId user body st)) = sockets st \<and>
              (ta_type (a_targetAudience a) = ''all'' \<or> ta_type (a_targetAudience a) = ''role'' \<or>
               ta_type (a_targetAudience a) = ''class'') \<and>
              (ta_type (a_targetAudience a) = ''all'' \<longrightarrow>
                 fst (snd (post_announcements js now newId user body st))
                   = map (\<lambda>s. (s_id s, New_announcement a)) (sockets st)) \<and>
              (ta_type (a_targetAudience a) = ''role'' \<longrightarrow>
                 (\<exists>r. ta_role (a_targetAudience a) = Some r \<and>
                   fst (snd (post_announcements js now newId user body st))
                     = map (\<lambda>s. (s_id s, New_announcement a))
                         (filter (\<lambda>s. (''role:'' @ r) \<in> set (s_rooms s)) (sockets st)))) \<and>
              (ta_type (a_targetAudience a) = ''class'' \<longrightarrow>
                 fst (snd (post_announcements js now newId user body st))
                   = map (\<lambda>s. (s_id s, New_announcement a)) (sockets st))"
proof -
  from created obtain input where joi: "announcementSchema_joi body = Inr input"
    by (auto simp: post_announcements_def server_error_def Let_def split: if_splits sum.splits)
  let ?a = "\<lparr>a_id = newId, a_title = trim_setter js (ai_title input),
                a_content = ai_content input, a_authorId = jp_id user,
                a_targetAudience = ai_targetAudience input,
                a_priority = (case ai_priority input of None \<Rightarrow> ''medium'' | Some p \<Rightarrow> p),
                a_startDate = (case ab_startDate body of None \<Rightarrow> now | Some d \<Rightarrow> d),
                a_endDate = ab_endDate body, a_createdAt = now, a_updatedAt = now\<rparr>"
  let ?st1 = "st\<lparr>announcements := announcements st @ [?a]\<rparr>"
  from created joi have res: "post_announcements js now newId user body st =
      (?st1, announce ?a ?st1, Response 201 ''Announcement created successfully'' (Some ?a))"
    by (auto simp: post_announcements_def server_error_def Let_def split: if_splits)
  note ty = announcementSchema_joi_Inr [OF joi]
  show ?thesis
    apply (rule exI [of _ ?a])
    apply (simp only: res fst_conv snd_conv)
    using ty apply (auto simp: announce_def io_emit_def io_to_def role_room_def)
    done
qed

text \<open>
  Claim C9. \<open>GET /announcements\<close> returns the stored announcements whose \<open>startDate\<close>
  is not after the current time and whose audience includes the caller, and no others;
  \<open>endDate\<close> plays no part.
\<close>

theorem get_announcements_ignores_endDate:
  "\<exists>anns. get_announcements now user st = Response 200 [] (Some anns) \<and>
     set anns = {a \<in> set (announcements st). a_startDate a \<le> now \<and> audience_includes user a}"
proof (cases "jp_role user = ''student'' \<or> jp_role user = ''teacher''")
  case True
  then have "get_announcements now user st = Response 200 []
      (Some (rev (sort_key (\<lambda>a. priority_key (a_priority a)) (sort_key a_createdAt
         (filter (matches \<lparr>q_startDate_lte = now,
                    q_or = [[Audience_type ''all''],
                            [Audience_type ''role'', Audience_role (jp_role user)],
                            [Audience_type ''class'']]\<rparr>) (announcements st))))))"
    by (simp add: get_announcements_def Let_def)
  moreover have "matches \<lparr>q_startDate_lte = now,
                    q_or = [[Audience_type ''all''],
                            [Audience_type ''role'', Audience_role (jp_role user)],
                            [Audience_type ''class'']]\<rparr> a
      = (a_startDate a \<le> now \<and> audience_includes user a)" for a
    using True by (auto simp: matches_def audience_includes_def)
  ultimately show ?thesis by auto
next
  case False
  then have "get_announcements now user st = Response 200 []
      (Some (rev (sort_key (\<lambda>a. priority_key (a_priority a)) (sort_key a_createdAt
         (filter (matches \<lparr>q_startDate_lte = now,
                    q_or = [[Audience_type ''all''],
                            [Audience_type ''role'', Audience_role (jp_role user)]]\<rparr>)
            (announcements st))))))"
    by (simp add: get_announcements_def Let_def)
  moreover have "matches \<lparr>q_startDate_lte = now,
                    q_or = [[Audience_type ''all''],
                            [Audience_type ''role'', Audience_role (jp_role user)]]\<rparr> a
      = (a_startDate a \<le> now \<and> audience_includes user a)" for a
    using False by (auto simp: matches_def audience_includes_def)
  ultimately show ?thesis by auto
qed

lemma student_notice_posted:
  "post_announcements sample_js 50 ''a1'' teacher1 student_notice comm_online =
     (comm_online\<lparr>announcements := announcements comm_online @ [student_notice_doc]\<rparr>,
      [(''k1'', New_announcement student_notice_doc)],
      Response 201 ''Announcement created successfully'' (Some student_notice_doc))"
  unfolding comm_online_eq
  by (simp add: post_announcements_def teacher1_def student_notice_def student_notice_doc_def
      announcementSchema_joi_def joi_string_required_def joi_targetAudience_def joi_valid_def
      joi_string_optional_def role_enum_def Announcement_valid_def announce_def io_to_def
      role_room_def trim_setter_def sample_js_def sample_trim_def is_space_def Let_def)

text \<open>
  A teacher announces an exam to the students while \<open>k1\<close> (a student) and \<open>k2\<close>
  (not authenticated) are connected: only \<open>k1\<close> receives it.
\<close>

theorem announcement_broadcast_witness:
  "res_status (snd (snd (post_announcements sample_js 50 ''a1'' teacher1 student_notice comm_online))) = 201 \<and>
   ta_type (a_targetAudience student_notice_doc) = ''role'' \<and>
   map s_id (sockets comm_online) = [''k1'', ''k2''] \<and>
   (\<exists>r. ta_role (a_targetAudience student_notice_doc) = Some r \<and>
      fst (snd (post_announcements sample_js 50 ''a1'' teacher1 student_notice comm_online))
        = map (\<lambda>s. (s_id s, New_announcement student_notice_doc))
            (filter (\<lambda>s. (''role:'' @ r) \<in> set (s_rooms s)) (sockets comm_online)))"
proof -
  have created: "res_status (snd (snd (post_announcements sample_js 50 ''a1'' teacher1 student_notice comm_online))) = 201"
    by (simp add: student_notice_posted)
  have role: "ta_type (a_targetAudience student_notice_doc) = ''role''"
    by (simp add: student_notice_doc_def)
  have ids: "map s_id (sockets comm_online) = [''k1'', ''k2'']"
    by (simp add: comm_online_eq)
  from announcement_broadcast [OF created] obtain a
    where a: "snd (snd (post_announcements sample_js 50 ''a1'' teacher1 student_notice comm_online))
                = Response 201 ''Announcement created successfully'' (Some a)"
      and to_role: "ta_type (a_targetAudience a) = ''role'' \<longrightarrow>
                 (\<exists>r. ta_role (a_targetAudience a) = Some r \<and>
                   fst (snd (post_announcements sample_js 50 ''a1'' teacher1 student_notice comm_online))
                     = map (\<lambda>s. (s_id s, New_announcement a))
                         (filter (\<lambda>s. (''role:'' @ r) \<in> set (s_rooms s)) (sockets comm_online)))"
    by (elim exE conjE) (rule that)
  from a have "a = student_notice_doc"
    by (simp add: student_notice_posted)
  with to_role role have "\<exists>r. ta_role (a_targetAudience student_notice_doc) = Some r \<and>
      fst (snd (post_announcements sample_js 50 ''a1'' teacher1 student_notice comm_online))
        = map (\<lambda>s. (s_id s, New_announcement student_notice_doc))
            (filter (\<lambda>s. (''role:'' @ r) \<in> set (s_rooms s)) (sockets comm_online))"
    by (simp only: simp_thms)
  with created role ids show ?thesis
    by (simp only: simp_thms)
qed

text \<open>
  An announcement to all whose \<open>endDate\<close> 10 lies before the current time 100 is among
  those returned to a student.
\<close>

theorem get_announcements_ignores_endDate_witness:
  "a_endDate expired_notice = Some 10 \<and> (10::nat) < 100 \<and>
   (\<exists>anns. get_announcements 100 alice comm_board = Response 200 [] (Some anns) \<and>
            expired_notice \<in> set anns)"
proof -
  from get_announcements_ignores_endDate [of 100 alice comm_board] obtain anns
    where g: "get_announcements 100 alice comm_board = Response 200 [] (Some anns)"
      and s: "set anns = {a \<in> set (announcements comm_board).
                a_startDate a \<le> 100 \<and> audience_includes alice a}"
    by (elim exE conjE) (rule that)
  have "expired_notice \<in> {a \<in> set (announcements comm_board).
                a_startDate a \<le> 100 \<and> audience_includes alice a}"
    by (simp add: comm_board_def comm0_def expired_notice_def audience_includes_def)
  with s have "expired_notice \<in> set anns"
    by (simp only:)
  with g have "\<exists>anns. get_announcements 100 alice comm_board = Response 200 [] (Some anns) \<and>
            expired_notice \<in> set anns"
    by (intro exI conjI)
  moreover have "a_endDate expired_notice = Some 10"
    by (simp add: expired_notice_def)
  ultimately show ?thesis
    by simp
qed

text \<open>
  Claim C4. The sender of a private message should learn the new message's id on success
  within the 5 second wait. The client waits for the event's acknowledgement callback;
  the server answers with a separate \<open>message-sent\<close> event and never calls the
  callback. So for a send that succeeds (the Message is stored and \<open>message-sent\<close> with
  its id is emitted to the sender) the client's promise is rejected with "Socket response
  timeout".
\<close>

theorem sendPrivateMessage_times_out_on_success:
  "fst (snd (on_private_message sample_js 2000 ''m1'' ''n1'' ''k1'' (Some hello) comm_online))
     = [(''k1'', Message_sent True ''m1'')] \<and>
   map m_id (messages (fst (on_private_message sample_js 2000 ''m1'' ''n1'' ''k1'' (Some hello) comm_online)))
     = [''m1''] \<and>
   snd (snd (on_private_message sample_js 2000 ''m1'' ''n1'' ''k1'' (Some hello) comm_online)) = None \<and>
   sendPrivateMessage True
       (snd (snd (on_private_message sample_js 2000 ''m1'' ''n1'' ''k1'' (Some hello) comm_online)))
     = Rejected ''Socket response timeout''"
proof -
  have "on_private_message sample_js 2000 ''m1'' ''n1'' ''k1'' (Some hello) comm_online =
     (comm_online\<lparr>messages := [\<lparr>m_id = ''m1'', m_senderId = ''s1'', m_recipientId = ''t1'',
              m_subject = ''Hi'', m_content = ''Hello'',
              m_read = False, m_readAt = None, m_createdAt = 2000\<rparr>],
          notifications := [\<lparr>n_id = ''n1'', n_userId = ''t1'', n_title = ''New Message'',
              n_message = ''You have a new message from s1: Hi'',
              n_type = ''info'', n_relatedTo = \<lparr>rt_type = ''message'', rt_id = ''m1''\<rparr>,
              n_read = False, n_readAt = None, n_createdAt = 2000\<rparr>]\<rparr>,
      [(''k1'', Message_sent True ''m1'')], None)"
    unfolding comm_online_eq
    by (simp add: on_private_message_def hello_def or_empty_def Message_valid_def
        Notification_valid_def io_to_def socket_emit_def trim_setter_def sample_js_def sample_trim_def is_space_def Let_def)
  then show ?thesis
    by (simp add: sendPrivateMessage_def)
qed

end
